theory Spec2Isabelle
  imports Main "HOL-Library.Sublist"
begin

text \<open>
  A model of the telephone bridge of \<open>main.py\<close>: phone normalization, the call-end
  webhook (signature check, then storing the call), profile assembly, conversation
  initiation, the appointment variables of outbound calls and the media stream handler.
  A handler is a function of its request and of an environment that answers for the
  libraries and collaborators; it returns the calls it made on them, in order, and its
  response. An exception is a value: the left side of a sum.
\<close>

section \<open>Python strings\<close>

text \<open>
  A Python \<open>str\<close> is modelled as a \<open>string\<close>: one \<open>char\<close> per code point, for
  the code points below 256. That is exactly what a header value is (the framework decodes
  header bytes as Latin-1). Case conversion is Python's on these code points: the ASCII
  letters and the letters of Latin-1, the sharp s (\<open>0xDF\<close>) having the two letters
  \<open>Ss\<close> for its title case. Two code points (\<open>0xB5\<close> and \<open>0xFF\<close>) have their
  title case above 255; there the model gives no text.
\<close>

definition is_space :: "char \<Rightarrow> bool" where
  \<comment> \<open>\<open>str.isspace\<close> on one code point below 256\<close>
  "is_space c \<longleftrightarrow>
     (let n = (of_char c :: nat) in
      (9 \<le> n \<and> n \<le> 13) \<or> (28 \<le> n \<and> n \<le> 32) \<or> n = 133 \<or> n = 160)"

definition py_lstrip :: "string \<Rightarrow> string" where
  "py_lstrip s = dropWhile is_space s"

definition py_rstrip :: "string \<Rightarrow> string" where
  "py_rstrip s = rev (dropWhile is_space (rev s))"

definition py_strip :: "string \<Rightarrow> string" where
  \<comment> \<open>\<open>s.strip()\<close>\<close>
  "py_strip s = py_rstrip (py_lstrip s)"

definition remove_spaces :: "string \<Rightarrow> string" where
  \<comment> \<open>\<open>s.replace(" ", "")\<close>\<close>
  "remove_spaces s = filter (\<lambda>c. c \<noteq> CHR '' '') s"

definition startswith_plus :: "string \<Rightarrow> bool" where
  \<comment> \<open>\<open>s.startswith("+")\<close>\<close>
  "startswith_plus s = (case s of [] \<Rightarrow> False | c # _ \<Rightarrow> c = CHR ''+'')"

section \<open>Phone normalization\<close>

text \<open>
  The four handlers \<open>get_caller_name\<close>, \<open>handle_call_end\<close>,
  \<open>get_loved_one_profile_query\<close> and \<open>initiate_call\<close> each carry the same three lines:
  \<^verbatim>\<open>
  normalized_number = phone_number.strip().replace(" ", "")
  if not normalized_number.startswith("+"):
      normalized_number = "+" + normalized_number
  \<close>
\<close>

definition normalize_number :: "string \<Rightarrow> string" where
  "normalize_number phone_number =
     (let normalized_number = remove_spaces (py_strip phone_number)
      in if \<not> startswith_plus normalized_number
         then CHR ''+'' # normalized_number
         else normalized_number)"

definition trimmed :: "string \<Rightarrow> bool" where
  \<comment> \<open>no whitespace at either end\<close>
  "trimmed s \<longleftrightarrow> s = [] \<or> (\<not> is_space (hd s) \<and> \<not> is_space (last s))"

section \<open>More string operations\<close>

definition is_ascii :: "char \<Rightarrow> bool" where
  "is_ascii c \<longleftrightarrow> (of_char c :: nat) < 128"

definition to_lower :: "char \<Rightarrow> char" where
  \<comment> \<open>\<open>c.lower()\<close>: \<open>A\<close> to \<open>Z\<close>, and \<open>0xC0\<close> to \<open>0xDE\<close> but for the sign \<open>0xD7\<close>\<close>
  "to_lower c =
     (let n = (of_char c :: nat)
      in if (65 \<le> n \<and> n \<le> 90) \<or> (192 \<le> n \<and> n \<le> 222 \<and> n \<noteq> 215)
         then char_of (n + 32) else c)"

definition to_title :: "char \<Rightarrow> string option" where
  \<comment> \<open>the title case of a character, which \<open>capitalize\<close> gives the first one: \<open>a\<close> to
      \<open>z\<close>, and \<open>0xE0\<close> to \<open>0xFE\<close> but for the sign \<open>0xF7\<close>; \<open>Ss\<close> for
      \<open>0xDF\<close>; \<open>None\<close> where Python gives a code point above 255 (\<open>0xB5\<close>,
      \<open>0xFF\<close>)\<close>
  "to_title c =
     (let n = (of_char c :: nat)
      in if n = 181 \<or> n = 255 then None
         else if n = 223 then Some ''Ss''
         else if (97 \<le> n \<and> n \<le> 122) \<or> (224 \<le> n \<and> n \<le> 254 \<and> n \<noteq> 247)
         then Some [char_of (n - 32)] else Some [c])"

definition py_lower :: "string \<Rightarrow> string" where
  \<comment> \<open>\<open>s.lower()\<close>\<close>
  "py_lower s = map to_lower s"

definition py_capitalize :: "string \<Rightarrow> string option" where
  \<comment> \<open>\<open>s.capitalize()\<close>: the first character in title case, the others in lower case\<close>
  "py_capitalize s =
     (case s of
        [] \<Rightarrow> Some []
      | c # cs \<Rightarrow> (case to_title c of None \<Rightarrow> None | Some t \<Rightarrow> Some (t @ map to_lower cs)))"

fun split_on :: "char \<Rightarrow> string \<Rightarrow> string list" where
  \<comment> \<open>\<open>s.split(sep)\<close> for a separator of one character; never the empty list\<close>
  "split_on sep [] = [[]]"
| "split_on sep (c # cs) =
     (if c = sep then [] # split_on sep cs
      else (case split_on sep cs of
              [] \<Rightarrow> [[c]]
            | w # ws \<Rightarrow> (c # w) # ws))"

fun py_join :: "string \<Rightarrow> string list \<Rightarrow> string" where
  \<comment> \<open>\<open>sep.join(xs)\<close> on a list of strings\<close>
  "py_join sep [] = []"
| "py_join sep [x] = x"
| "py_join sep (x # y # ys) = x @ sep @ py_join sep (y # ys)"

fun py_in :: "string \<Rightarrow> string \<Rightarrow> bool" where
  \<comment> \<open>\<open>sub in s\<close> on strings: \<open>sub\<close> occurs in \<open>s\<close> as a contiguous piece\<close>
  "py_in sub [] = (sub = [])"
| "py_in sub (c # cs) = (prefix sub (c # cs) \<or> py_in sub cs)"

section \<open>Python values and exceptions\<close>

text \<open>
  The values the handlers receive are what \<open>json.loads\<close>, \<open>request.json()\<close> and the
  datastore client return: \<open>None\<close>, booleans, numbers, strings, lists and dicts. A dict is
  the list of its items, each key once. Numbers are modelled as integers.
\<close>

datatype json =
    JNull
  | JBool bool
  | JNum int
  | JStr string
  | JArr "json list"
  | JObj "(string \<times> json) list"

datatype exn =
    ValueError
  | TypeError
  | AttributeError
  | KeyError
  | IndexError
  | UnicodeDecodeError
  | JSONDecodeError
  | WebSocketDisconnect
  | External string  \<comment> \<open>raised inside a collaborator: datastore, HTTP client, AI engine SDK\<close>
  | OutsideModel
      \<comment> \<open>not an exception of the program: the text the program builds here has a code
          point above 255, and the model says nothing of what follows\<close>

definition then_do :: "exn + 'a \<Rightarrow> ('a \<Rightarrow> exn + 'b) \<Rightarrow> exn + 'b" where
  \<comment> \<open>sequencing: an exception raised by the first statement skips the rest\<close>
  "then_do r f = (case r of Inl e \<Rightarrow> Inl e | Inr x \<Rightarrow> f x)"

fun truthy :: "json \<Rightarrow> bool" where
  \<comment> \<open>the truth value Python gives \<open>x\<close> in \<open>if x\<close> and \<open>not x\<close>\<close>
  "truthy JNull = False"
| "truthy (JBool b) = b"
| "truthy (JNum n) = (n \<noteq> 0)"
| "truthy (JStr s) = (s \<noteq> [])"
| "truthy (JArr xs) = (xs \<noteq> [])"
| "truthy (JObj kvs) = (kvs \<noteq> [])"

fun dict_get :: "json \<Rightarrow> string \<Rightarrow> json \<Rightarrow> exn + json" where
  \<comment> \<open>\<open>x.get(key, default)\<close>; only a dict has \<open>get\<close>\<close>
  "dict_get (JObj kvs) key dflt = Inr (case map_of kvs key of None \<Rightarrow> dflt | Some v \<Rightarrow> v)"
| "dict_get _ key dflt = Inl AttributeError"

fun subscript :: "json \<Rightarrow> string \<Rightarrow> exn + json" where
  \<comment> \<open>\<open>x["key"]\<close>\<close>
  "subscript (JObj kvs) key = (case map_of kvs key of None \<Rightarrow> Inl KeyError | Some v \<Rightarrow> Inr v)"
| "subscript _ key = Inl TypeError"

fun iterate :: "json \<Rightarrow> exn + json list" where
  \<comment> \<open>the items \<open>for x in v\<close> runs through\<close>
  "iterate (JArr xs) = Inr xs"
| "iterate (JObj kvs) = Inr (map (\<lambda>kv. JStr (fst kv)) kvs)"
| "iterate (JStr s) = Inr (map (\<lambda>c. JStr [c]) s)"
| "iterate _ = Inl TypeError"

fun py_str :: "(json \<Rightarrow> string) \<Rightarrow> json \<Rightarrow> string" where
  \<comment> \<open>\<open>str(v)\<close>, also what an f-string puts for \<open>{v}\<close>; the text of a number, a list or
      a dict is the parameter \<open>repr\<close>\<close>
  "py_str repr (JStr s) = s"
| "py_str repr JNull = ''None''"
| "py_str repr (JBool b) = (if b then ''True'' else ''False'')"
| "py_str repr v = repr v"

fun join_values :: "string \<Rightarrow> json list \<Rightarrow> exn + string" where
  \<comment> \<open>\<open>sep.join(xs)\<close>: \<open>TypeError\<close> when an item is not a string\<close>
  "join_values sep [] = Inr []"
| "join_values sep (JStr x # xs) =
     (case join_values sep xs of
        Inl e \<Rightarrow> Inl e
      | Inr rest \<Rightarrow> Inr (if xs = [] then x else x @ sep @ rest))"
| "join_values sep (_ # xs) = Inl TypeError"

section \<open>The environment of the handlers\<close>

datatype db_call =
    Select string string string json  \<comment> \<open>\<open>table(t).select(columns).eq(column, value)\<close>\<close>
  | Insert string json                \<comment> \<open>\<open>table(t).insert(row)\<close>\<close>

datatype effect =
    HmacNew string string    \<comment> \<open>\<open>hmac.new(key, msg, sha256).hexdigest()\<close>\<close>
  | Execute db_call          \<comment> \<open>\<open>.execute()\<close> on a datastore query\<close>
  | HttpGet string           \<comment> \<open>the profile request of conversation initiation\<close>

text \<open>
  What the program gets from its libraries and collaborators is a parameter of the model:
  the configured secret, the digest function, text decoding, the JSON parser, the answer of
  the datastore to each query, the answer of the profile URL, the texts Python prints for
  compound values and exceptions, and the local hour.
\<close>

record env =
  WEBHOOK_SECRET :: string
  hmac_sha256_hex :: "string \<Rightarrow> string \<Rightarrow> string"
    \<comment> \<open>key and message as text; stands for \<open>hmac.new(key.encode("utf-8"),
        msg.encode("utf-8"), hashlib.sha256).hexdigest()\<close>\<close>
  decode_utf8 :: "string \<Rightarrow> string option"
    \<comment> \<open>\<open>body.decode("utf-8")\<close>; \<open>None\<close> is \<open>UnicodeDecodeError\<close>\<close>
  json_loads :: "string \<Rightarrow> json option"
    \<comment> \<open>\<open>json.loads\<close>; \<open>None\<close> is \<open>JSONDecodeError\<close>\<close>
  execute :: "db_call \<Rightarrow> exn + json list"
    \<comment> \<open>the rows in \<open>response.data\<close>, or the exception the client raises\<close>
  http_get_profile :: "string \<Rightarrow> exn + json"
    \<comment> \<open>\<open>client.get(url)\<close>, \<open>raise_for_status()\<close>, \<open>response.json()\<close>\<close>
  repr_text :: "json \<Rightarrow> string"
  exn_text :: "exn \<Rightarrow> string"
    \<comment> \<open>\<open>str(e)\<close>\<close>
  hour :: nat
    \<comment> \<open>\<open>datetime.datetime.now().hour\<close>\<close>

datatype response =
    HTTPException nat string  \<comment> \<open>\<open>raise HTTPException(status_code, detail)\<close>\<close>
  | Unhandled exn             \<comment> \<open>an exception leaves the handler: the server answers 500\<close>
  | Returned json             \<comment> \<open>the handler returns this value: the server answers 200\<close>

section \<open>The call-end webhook: authentication\<close>

record call_end_request =
  signature_header :: "string option"  \<comment> \<open>\<open>request.headers.get("ElevenLabs-Signature")\<close>\<close>
  body :: string                       \<comment> \<open>the bytes of \<open>await request.body()\<close>\<close>

fun dict_of_parts :: "string list list \<Rightarrow> (string \<rightharpoonup> string) \<Rightarrow> exn + (string \<rightharpoonup> string)" where
  \<comment> \<open>\<open>dict(...)\<close> over a sequence: each element must have exactly two items\<close>
  "dict_of_parts [] m = Inr m"
| "dict_of_parts ([k, v] # ps) m = dict_of_parts ps (m(k \<mapsto> v))"
| "dict_of_parts (_ # ps) m = Inl ValueError"

definition parse_signature_header :: "string \<Rightarrow> exn + (string \<rightharpoonup> string)" where
  \<comment> \<open>\<open>dict(part.split("=") for part in signature_header.split(","))\<close>\<close>
  "parse_signature_header header =
     dict_of_parts (map (split_on CHR ''='') (split_on CHR '','' header)) Map.empty"

definition compare_digest :: "string \<Rightarrow> string \<Rightarrow> exn + bool" where
  \<comment> \<open>\<open>hmac.compare_digest\<close> on two \<open>str\<close>: both must be ASCII\<close>
  "compare_digest a b =
     (if list_all is_ascii a \<and> list_all is_ascii b then Inr (a = b) else Inl TypeError)"

definition absent :: "string option \<Rightarrow> bool" where
  \<comment> \<open>\<open>not x\<close> for \<open>x\<close> a string or \<open>None\<close>\<close>
  "absent x = (case x of None \<Rightarrow> True | Some s \<Rightarrow> s = [])"

definition verify_signature :: "env \<Rightarrow> call_end_request \<Rightarrow> effect list \<times> (response + string)" where
  \<comment> \<open>lines 194 to 225 of \<open>handle_call_end\<close>; \<open>Inr\<close> carries \<open>body_str\<close> on\<close>
  "verify_signature en request =
     (if absent (signature_header request)
      then ([], Inl (HTTPException 401 ''Missing ElevenLabs-Signature header''))
      else
        (case parse_signature_header (the (signature_header request)) of
           Inl e \<Rightarrow> ([], Inl (Unhandled e))
         | Inr signature_parts \<Rightarrow>
             (let timestamp = signature_parts ''t'';
                  provided_signature = signature_parts ''v0''
              in if absent timestamp \<or> absent provided_signature
                 then ([], Inl (HTTPException 401 ''Invalid ElevenLabs-Signature format''))
                 else
                   (case decode_utf8 en (body request) of
                      None \<Rightarrow> ([], Inl (Unhandled UnicodeDecodeError))
                    | Some body_str \<Rightarrow>
                        (let message = the timestamp @ ''.'' @ body_str;
                             expected_signature =
                               hmac_sha256_hex en (WEBHOOK_SECRET en) message;
                             computed = [HmacNew (WEBHOOK_SECRET en) message]
                         in (case compare_digest expected_signature (the provided_signature) of
                               Inl e \<Rightarrow> (computed, Inl (Unhandled e))
                             | Inr same \<Rightarrow>
                                 if \<not> same
                                 then (computed, Inl (HTTPException 401 ''Invalid signature''))
                                 else (computed, Inr body_str)))))))"

section \<open>Statements with effects\<close>

definition then_eff ::
  "effect list \<times> (exn + 'a) \<Rightarrow> ('a \<Rightarrow> effect list \<times> (exn + 'b)) \<Rightarrow> effect list \<times> (exn + 'b)" where
  \<comment> \<open>sequencing that keeps what was done before an exception\<close>
  "then_eff r f =
     (case r of
        (fx, Inl e) \<Rightarrow> (fx, Inl e)
      | (fx, Inr x) \<Rightarrow> (case f x of (fx', y) \<Rightarrow> (fx @ fx', y)))"

definition pure_step :: "exn + 'a \<Rightarrow> effect list \<times> (exn + 'a)" where
  "pure_step r = ([], r)"

definition run_query :: "env \<Rightarrow> db_call \<Rightarrow> effect list \<times> (exn + json list)" where
  \<comment> \<open>\<open>supabase.table(...)....execute()\<close>, then \<open>.data\<close>\<close>
  "run_query en c = ([Execute c], execute en c)"

fun get_path :: "json \<Rightarrow> (string \<times> json) list \<Rightarrow> exn + json" where
  \<comment> \<open>a chain \<open>v.get(k1, d1).get(k2, d2)...\<close>\<close>
  "get_path v [] = Inr v"
| "get_path v ((k, d) # ks) = then_do (dict_get v k d) (\<lambda>w. get_path w ks)"

definition first_row :: "json list \<Rightarrow> exn + json" where
  \<comment> \<open>\<open>rows[0]\<close>\<close>
  "first_row rows = (case rows of [] \<Rightarrow> Inl IndexError | r # _ \<Rightarrow> Inr r)"

definition normalize_value :: "json \<Rightarrow> exn + string" where
  \<comment> \<open>the normalization lines on a value that may not be a string\<close>
  "normalize_value v = (case v of JStr s \<Rightarrow> Inr (normalize_number s) | _ \<Rightarrow> Inl AttributeError)"

section \<open>The call-end webhook: storing the call\<close>

definition status_message :: "string \<Rightarrow> string \<Rightarrow> json" where
  "status_message status message = JObj [(''status'', JStr status), (''message'', JStr message)]"

definition extract_ids :: "json \<Rightarrow> exn + (json \<times> json)" where
  \<comment> \<open>lines 232 to 237: \<open>conversation_id\<close> and \<open>caller_id\<close> with its fallback\<close>
  "extract_ids data =
     then_do (get_path data [(''data'', JObj []), (''conversation_id'', JNull)])
       (\<lambda>conversation_id.
     then_do (get_path data [(''data'', JObj []), (''metadata'', JObj []),
                             (''phone_call'', JObj []), (''external_number'', JNull)])
       (\<lambda>caller_id.
     then_do (if \<not> truthy caller_id
              then get_path data [(''conversation_initiation_client_data'', JObj []),
                                  (''dynamic_variables'', JObj []), (''system__caller_id'', JNull)]
              else Inr caller_id)
       (\<lambda>caller_id. Inr (conversation_id, caller_id))))"

definition capitalize_value :: "json \<Rightarrow> exn + string" where
  \<comment> \<open>\<open>role.capitalize()\<close>; only a string has \<open>capitalize\<close>\<close>
  "capitalize_value v =
     (case v of
        JStr s \<Rightarrow> (case py_capitalize s of None \<Rightarrow> Inl OutsideModel | Some r \<Rightarrow> Inr r)
      | _ \<Rightarrow> Inl AttributeError)"

fun transcript_lines :: "(json \<Rightarrow> string) \<Rightarrow> json list \<Rightarrow> exn + string list" where
  \<comment> \<open>the loop of lines 251 to 256\<close>
  "transcript_lines repr [] = Inr []"
| "transcript_lines repr (entry # rest) =
     then_do (dict_get entry ''role'' (JStr ''unknown'')) (\<lambda>role.
     then_do (dict_get entry ''message'' (JStr '''')) (\<lambda>message.
       if truthy message
       then then_do (capitalize_value role) (\<lambda>r.
            then_do (transcript_lines repr rest) (\<lambda>ls.
              Inr ((r @ '': '' @ py_str repr message) # ls)))
       else transcript_lines repr rest))"

definition format_transcript :: "(json \<Rightarrow> string) \<Rightarrow> json \<Rightarrow> exn + string" where
  \<comment> \<open>lines 251 to 257: \<open>full_transcript\<close>\<close>
  "format_transcript repr transcript =
     then_do (iterate transcript) (\<lambda>entries.
     then_do (transcript_lines repr entries) (\<lambda>ls.
       Inr (py_join [CHR 0x0A] ls)))"

definition lookup_or_create_user :: "env \<Rightarrow> string \<Rightarrow> effect list \<times> (exn + json)" where
  \<comment> \<open>lines 276 to 285: \<open>user_id\<close>\<close>
  "lookup_or_create_user en normalized_number =
     then_eff (run_query en (Select ''users'' ''id'' ''phone_number'' (JStr normalized_number)))
       (\<lambda>rows.
          if rows \<noteq> []
          then pure_step (then_do (first_row rows) (\<lambda>r. subscript r ''id''))
          else
            then_eff (run_query en (Insert ''users''
                        (JObj [(''phone_number'', JStr normalized_number),
                               (''user_name'', JStr ''Unknown User'')])))
              (\<lambda>new_rows. pure_step (then_do (first_row new_rows) (\<lambda>r. subscript r ''id''))))"

definition save_call :: "env \<Rightarrow> json \<Rightarrow> json \<Rightarrow> effect list \<times> (exn + json)" where
  \<comment> \<open>the body of the \<open>try\<close> of lines 243 to 299\<close>
  "save_call en data caller_id =
     then_eff (pure_step (get_path data [(''data'', JObj []), (''transcript'', JArr [])]))
       (\<lambda>transcript.
     if \<not> truthy transcript
     then pure_step (Inr (status_message ''error'' ''No transcript available''))
     else
     then_eff (pure_step (format_transcript (repr_text en) transcript)) (\<lambda>full_transcript.
     then_eff (pure_step (get_path data [(''data'', JObj []), (''metadata'', JObj [])])) (\<lambda>metadata.
     then_eff (pure_step (dict_get data ''analysis'' (JObj []))) (\<lambda>analysis.
     then_eff (pure_step (dict_get metadata ''call_duration_secs'' JNull)) (\<lambda>call_duration_secs.
     then_eff (pure_step (get_path analysis [(''data_collection_results'', JObj []),
                            (''happy does the person seem?'', JObj [])])) (\<lambda>happiness_data.
     then_eff (pure_step (dict_get happiness_data ''value'' JNull)) (\<lambda>happiness_level.
     then_eff (pure_step (dict_get metadata ''phone_call'' (JObj []))) (\<lambda>phone_call.
     then_eff (pure_step (dict_get phone_call ''direction'' JNull)) (\<lambda>call_direction.
     then_eff (pure_step (normalize_value caller_id)) (\<lambda>normalized_number.
     then_eff (lookup_or_create_user en normalized_number) (\<lambda>user_id.
     then_eff (run_query en (Insert ''conversations''
                 (JObj [(''user_id'', user_id),
                        (''phone_number'', JStr normalized_number),
                        (''transcript'', JStr full_transcript),
                        (''call_duration_secs'', call_duration_secs),
                        (''happiness_level'', happiness_level),
                        (''call_direction'', call_direction)])))
       (\<lambda>_. pure_step (Inr (status_message ''success''
                ''Transcript and additional data saved''))))))))))))))"

definition handle_call_end :: "env \<Rightarrow> call_end_request \<Rightarrow> effect list \<times> response" where
  "handle_call_end en request =
     (case verify_signature en request of
        (fx, Inl r) \<Rightarrow> (fx, r)
      | (fx, Inr body_str) \<Rightarrow>
          (case json_loads en body_str of
             None \<Rightarrow> (fx, Unhandled JSONDecodeError)
           | Some data \<Rightarrow>
               (case extract_ids data of
                  Inl e \<Rightarrow> (fx, Unhandled e)
                | Inr (conversation_id, caller_id) \<Rightarrow>
                    if \<not> truthy conversation_id \<or> \<not> truthy caller_id
                    then (fx, Returned (status_message ''error'' ''Missing required fields''))
                    else
                      (case save_call en data caller_id of
                         (fx', Inl e) \<Rightarrow>
                           (fx @ fx', Returned (status_message ''error'' (exn_text en e)))
                       | (fx', Inr r) \<Rightarrow> (fx @ fx', Returned r)))))"

section \<open>Signed requests\<close>

definition timestamp_text :: "string \<Rightarrow> bool" where
  \<comment> \<open>a timestamp as the header carries it: not empty, no separator of the header in it
      (a decimal Unix timestamp is one)\<close>
  "timestamp_text T \<longleftrightarrow> T \<noteq> [] \<and> CHR '','' \<notin> set T \<and> CHR ''='' \<notin> set T"

definition signature_text :: "string \<Rightarrow> bool" where
  \<comment> \<open>a digest as the header carries it: not empty, ASCII, no separator of the header in it
      (lowercase hexadecimal text is one)\<close>
  "signature_text d \<longleftrightarrow>
     d \<noteq> [] \<and> list_all (\<lambda>c. is_ascii c \<and> c \<noteq> CHR '','' \<and> c \<noteq> CHR ''='') d"

definition signed_header :: "string \<Rightarrow> string \<Rightarrow> string" where
  \<comment> \<open>\<open>t=<timestamp>,v0=<digest>\<close>\<close>
  "signed_header T d = ''t='' @ T @ '',v0='' @ d"

definition expected_digest :: "env \<Rightarrow> string \<Rightarrow> string \<Rightarrow> string" where
  \<comment> \<open>the digest of \<open>T + "." + B\<close> under the configured secret\<close>
  "expected_digest en T B = hmac_sha256_hex en (WEBHOOK_SECRET en) (T @ ''.'' @ B)"

section \<open>What the call-end webhook is to store\<close>

definition db_calls :: "effect list \<Rightarrow> db_call list" where
  \<comment> \<open>the datastore queries among the effects, in order\<close>
  "db_calls fx = concat (map (\<lambda>x. case x of Execute c \<Rightarrow> [c] | _ \<Rightarrow> []) fx)"

fun separated :: "string \<Rightarrow> string list \<Rightarrow> string" where
  \<comment> \<open>the items, with the separator in front of each one but the first\<close>
  "separated sep [] = []"
| "separated sep (x # xs) = x @ concat (map (\<lambda>y. sep @ y) xs)"

definition turn :: "json \<Rightarrow> bool" where
  \<comment> \<open>an entry of the transcript: a dict whose role, where present, is a string with its
      capital form below 256, and whose message, where present, is a string or null\<close>
  "turn e =
     (case e of
        JObj kvs \<Rightarrow>
          (case map_of kvs ''role'' of
             None \<Rightarrow> True | Some (JStr r) \<Rightarrow> py_capitalize r \<noteq> None | Some _ \<Rightarrow> False)
          \<and> (case map_of kvs ''message'' of
                None \<Rightarrow> True | Some (JStr m) \<Rightarrow> True | Some JNull \<Rightarrow> True
              | Some _ \<Rightarrow> False)
      | _ \<Rightarrow> False)"

definition turn_role :: "json \<Rightarrow> string" where
  "turn_role e =
     (case e of
        JObj kvs \<Rightarrow> (case map_of kvs ''role'' of Some (JStr r) \<Rightarrow> r | _ \<Rightarrow> ''unknown'')
      | _ \<Rightarrow> ''unknown'')"

definition turn_message :: "json \<Rightarrow> string" where
  "turn_message e =
     (case e of
        JObj kvs \<Rightarrow> (case map_of kvs ''message'' of Some (JStr m) \<Rightarrow> m | _ \<Rightarrow> [])
      | _ \<Rightarrow> [])"

definition turn_line :: "json \<Rightarrow> string" where
  \<comment> \<open>\<open><Role>: <message>\<close>, the role capitalized\<close>
  "turn_line e =
     (case py_capitalize (turn_role e) of None \<Rightarrow> [] | Some r \<Rightarrow> r)
     @ '': '' @ turn_message e"

definition transcript_text :: "json list \<Rightarrow> string" where
  \<comment> \<open>one line for each turn with a message, a newline between two lines\<close>
  "transcript_text entries =
     separated [CHR 0x0A] (map turn_line (filter (\<lambda>e. turn_message e \<noteq> []) entries))"

section \<open>Dict displays\<close>

fun build_items :: "(string \<times> (exn + json)) list \<Rightarrow> exn + (string \<times> json) list" where
  \<comment> \<open>the items of a display \<open>{k1: e1, k2: e2, ...}\<close>: the values are computed in order, and
      the first exception ends the computation\<close>
  "build_items [] = Inr []"
| "build_items ((k, r) # rest) =
     then_do r (\<lambda>v. then_do (build_items rest) (\<lambda>kvs. Inr ((k, v) # kvs)))"

definition build_dict :: "(string \<times> (exn + json)) list \<Rightarrow> exn + json" where
  "build_dict items = then_do (build_items items) (\<lambda>kvs. Inr (JObj kvs))"

section \<open>Profile assembly\<close>

definition medication_times :: "(json \<Rightarrow> string) \<Rightarrow> json \<Rightarrow> string list" where
  \<comment> \<open>lines 367 to 372: \<open>times\<close>, from a list or from comma-separated text\<close>
  "medication_times repr time_taken =
     (case time_taken of
        JArr ts \<Rightarrow>
          map (\<lambda>t. case t of JStr s \<Rightarrow> py_lower s | _ \<Rightarrow> py_lower (py_str repr t)) ts
      | _ \<Rightarrow>
          map (\<lambda>t. py_lower (py_strip t)) (split_on CHR '','' (py_str repr time_taken)))"

fun bucket_medications ::
  "(json \<Rightarrow> string) \<Rightarrow> json list \<Rightarrow> json list \<times> json list \<times> json list
     \<Rightarrow> exn + (json list \<times> json list \<times> json list)" where
  \<comment> \<open>the loop of lines 363 to 379 on \<open>morning_meds\<close>, \<open>afternoon_meds\<close>, \<open>evening_meds\<close>\<close>
  "bucket_medications repr [] buckets = Inr buckets"
| "bucket_medications repr (med # meds) (morning_meds, afternoon_meds, evening_meds) =
     then_do (subscript med ''medication_name'') (\<lambda>med_name.
     then_do (dict_get med ''time_taken'' (JArr [])) (\<lambda>time_taken.
       (let times = medication_times repr time_taken
        in bucket_medications repr meds
            (if list_ex (py_in ''morning'') times
               then morning_meds @ [med_name] else morning_meds,
             if list_ex (py_in ''afternoon'') times
               then afternoon_meds @ [med_name] else afternoon_meds,
             if list_ex (py_in ''evening'') times
               then evening_meds @ [med_name] else evening_meds))))"

fun clean_appointments :: "json list \<Rightarrow> exn + json list" where
  \<comment> \<open>the loop of lines 383 to 389\<close>
  "clean_appointments [] = Inr []"
| "clean_appointments (appt # appts) =
     then_do (build_dict
        [(''title'', subscript appt ''appointment_title''),
         (''date'', subscript appt ''appointment_date''),
         (''time'', subscript appt ''appointment_time''),
         (''frequency'', subscript appt ''frequency'')]) (\<lambda>a.
     then_do (clean_appointments appts) (\<lambda>rest. Inr (a # rest)))"

definition bucket_text :: "json list \<Rightarrow> exn + json" where
  \<comment> \<open>\<open>", ".join(meds) if meds else "none"\<close>\<close>
  "bucket_text meds =
     (if meds \<noteq> [] then then_do (join_values '', '' meds) (\<lambda>s. Inr (JStr s))
      else Inr (JStr ''none''))"

definition medications_entry ::
  "json list \<Rightarrow> json list \<times> json list \<times> json list \<Rightarrow> exn + json" where
  \<comment> \<open>lines 403 to 408\<close>
  "medications_entry medications buckets =
     (case buckets of (morning_meds, afternoon_meds, evening_meds) \<Rightarrow>
        build_dict
          [(''has_medications'', Inr (JBool (length medications > 0))),
           (''morning_medications'', bucket_text morning_meds),
           (''afternoon_medications'', bucket_text afternoon_meds),
           (''evening_medications'', bucket_text evening_meds)])"

definition build_profile ::
  "(json \<Rightarrow> string) \<Rightarrow> json \<Rightarrow> json \<Rightarrow> json list \<Rightarrow> json \<Rightarrow> json \<Rightarrow> json list \<Rightarrow> exn + json" where
  \<comment> \<open>lines 358 to 426: the two loops, then \<open>clean_profile\<close>\<close>
  "build_profile repr user_name loved_one medications call_preferences
       notification_settings appointments =
     then_do (bucket_medications repr medications ([], [], [])) (\<lambda>buckets.
     then_do (clean_appointments appointments) (\<lambda>upcoming_appointments.
       build_dict
         [(''caller'', build_dict [(''name'', Inr user_name)]),
          (''loved_one'', build_dict
             [(''name'', subscript loved_one ''name''),
              (''nickname'', subscript loved_one ''nickname''),
              (''age_range'', subscript loved_one ''age_range''),
              (''gender'', subscript loved_one ''gender''),
              (''relationship'', subscript loved_one ''relationship_to_user'')]),
          (''medications'', medications_entry medications buckets),
          (''call_settings'', build_dict
             [(''length'', dict_get call_preferences ''call_length'' (JStr ''medium'')),
              (''voice'', dict_get call_preferences ''voice_preference'' (JStr ''female'')),
              (''frequency'',
                 dict_get call_preferences ''call_frequency'' (JStr ''daily check ins'')),
              (''checklist'', build_dict
                 [(''medication_reminders'',
                     dict_get call_preferences ''medication_reminders'' (JBool False)),
                  (''sleep_quality'',
                     dict_get call_preferences ''sleep_quality'' (JBool False)),
                  (''mood_check'', dict_get call_preferences ''mood_check'' (JBool False)),
                  (''upcoming_appointments'',
                     dict_get call_preferences ''upcoming_appointments'' (JBool False))])]),
          (''notifications'', build_dict
             [(''daily_summary'',
                 dict_get notification_settings ''daily_call_summary'' (JBool False)),
              (''missed_calls'', dict_get notification_settings ''missed_calls'' (JBool False)),
              (''low_sentiment'',
                 dict_get notification_settings ''low_sentiment'' (JBool False))]),
          (''appointments'', Inr (JArr upcoming_appointments))]))"

definition first_or_empty :: "json list \<Rightarrow> json" where
  \<comment> \<open>\<open>rows[0] if rows else {}\<close>\<close>
  "first_or_empty rows = (case rows of [] \<Rightarrow> JObj [] | r # _ \<Rightarrow> r)"

definition profile_body :: "env \<Rightarrow> string \<Rightarrow> effect list \<times> (exn + json)" where
  \<comment> \<open>the body of the \<open>try\<close> of lines 316 to 429\<close>
  "profile_body en normalized_number =
     then_eff (run_query en
        (Select ''users'' ''id, user_name'' ''phone_number'' (JStr normalized_number)))
       (\<lambda>users.
     if users = []
     then pure_step (Inr (JObj [(''caller_name'', JStr ''Valued Customer''),
                                (''error'', JStr ''User not found'')]))
     else
     then_eff (pure_step (then_do (first_row users) (\<lambda>u. subscript u ''id''))) (\<lambda>user_id.
     then_eff (pure_step (then_do (first_row users) (\<lambda>u. subscript u ''user_name'')))
       (\<lambda>user_name.
     then_eff (run_query en (Select ''loved_ones'' ''*'' ''user_id'' user_id)) (\<lambda>loved_ones.
     if loved_ones = []
     then pure_step (Inr (JObj [(''caller_name'', user_name),
                                (''error'', JStr ''No loved one profile found'')]))
     else
     then_eff (pure_step (first_row loved_ones)) (\<lambda>loved_one.
     then_eff (pure_step (subscript loved_one ''id'')) (\<lambda>loved_one_id.
     then_eff (pure_step (subscript loved_one ''name'')) (\<lambda>printed_name.
     then_eff (run_query en (Select ''medications'' ''*'' ''loved_one_id'' loved_one_id))
       (\<lambda>medications.
     then_eff (run_query en (Select ''call_preferences'' ''*'' ''loved_one_id'' loved_one_id))
       (\<lambda>call_prefs.
     then_eff (run_query en
        (Select ''notification_settings'' ''*'' ''loved_one_id'' loved_one_id))
       (\<lambda>notif.
     then_eff (run_query en
        (Select ''consolidated_appointments'' ''*'' ''loved_one_id'' loved_one_id))
       (\<lambda>appointments.
       pure_step (build_profile (repr_text en) user_name loved_one medications
          (first_or_empty call_prefs) (first_or_empty notif) appointments))))))))))))"

definition get_loved_one_profile_query :: "env \<Rightarrow> string \<Rightarrow> effect list \<times> response" where
  "get_loved_one_profile_query en phone_number =
     (case profile_body en (normalize_number phone_number) of
        (fx, Inl e) \<Rightarrow>
          (fx, Returned (JObj [(''caller_name'', JStr ''Valued Customer''),
                               (''error'', JStr (exn_text en e))]))
      | (fx, Inr profile) \<Rightarrow> (fx, Returned profile))"

section \<open>The medication fields, as the specification words them\<close>

definition medication_row :: "json \<Rightarrow> bool" where
  \<comment> \<open>a medication row: a dict with a name, which is a string\<close>
  "medication_row med =
     (case med of
        JObj kvs \<Rightarrow> (case map_of kvs ''medication_name'' of Some (JStr n) \<Rightarrow> True | _ \<Rightarrow> False)
      | _ \<Rightarrow> False)"

definition row_name :: "json \<Rightarrow> string" where
  "row_name med =
     (case med of
        JObj kvs \<Rightarrow> (case map_of kvs ''medication_name'' of Some (JStr n) \<Rightarrow> n | _ \<Rightarrow> [])
      | _ \<Rightarrow> [])"

definition time_tags :: "(json \<Rightarrow> string) \<Rightarrow> json \<Rightarrow> string list" where
  \<comment> \<open>the time-of-day tags of a row: the items of the list under \<open>time_taken\<close>, or the
      pieces of its text between commas\<close>
  "time_tags repr med =
     (case med of
        JObj kvs \<Rightarrow>
          (case map_of kvs ''time_taken'' of
             None \<Rightarrow> []
           | Some (JArr ts) \<Rightarrow> map (py_str repr) ts
           | Some v \<Rightarrow> map py_strip (split_on CHR '','' (py_str repr v)))
      | _ \<Rightarrow> [])"

definition contains_ignoring_case :: "string \<Rightarrow> string \<Rightarrow> bool" where
  \<comment> \<open>the tag contains the name as a substring, letter case apart\<close>
  "contains_ignoring_case name tag \<longleftrightarrow> sublist (py_lower name) (py_lower tag)"

definition in_bucket :: "(json \<Rightarrow> string) \<Rightarrow> string \<Rightarrow> json \<Rightarrow> bool" where
  "in_bucket repr name med \<longleftrightarrow> list_ex (contains_ignoring_case name) (time_tags repr med)"

definition bucket_names :: "(json \<Rightarrow> string) \<Rightarrow> string \<Rightarrow> json list \<Rightarrow> string list" where
  "bucket_names repr name meds = map row_name (filter (in_bucket repr name) meds)"

definition bucket_field :: "(json \<Rightarrow> string) \<Rightarrow> string \<Rightarrow> json list \<Rightarrow> string" where
  \<comment> \<open>the names of the bucket joined with \<open>", "\<close>, or \<open>none\<close>\<close>
  "bucket_field repr name meds =
     (if bucket_names repr name meds = [] then ''none''
      else py_join '', '' (bucket_names repr name meds))"

definition reference_medications :: "(json \<Rightarrow> string) \<Rightarrow> json list \<Rightarrow> json" where
  "reference_medications repr meds =
     JObj [(''has_medications'', JBool (meds \<noteq> [])),
           (''morning_medications'', JStr (bucket_field repr ''morning'' meds)),
           (''afternoon_medications'', JStr (bucket_field repr ''afternoon'' meds)),
           (''evening_medications'', JStr (bucket_field repr ''evening'' meds))]"

section \<open>Dynamic variables\<close>

fun py_contains :: "string \<Rightarrow> json \<Rightarrow> exn + bool" where
  \<comment> \<open>\<open>"key" in v\<close>: a key of a dict, an item of a list, a piece of a string\<close>
  "py_contains key (JObj kvs) = Inr (map_of kvs key \<noteq> None)"
| "py_contains key (JArr xs) = Inr (JStr key \<in> set xs)"
| "py_contains key (JStr s) = Inr (py_in key s)"
| "py_contains key _ = Inl TypeError"

definition lowered :: "(json \<Rightarrow> string) \<Rightarrow> exn + json \<Rightarrow> exn + json" where
  \<comment> \<open>\<open>str(x).lower()\<close>\<close>
  "lowered repr r = then_do r (\<lambda>v. Inr (JStr (py_lower (py_str repr v))))"

definition dynamic_variables :: "(json \<Rightarrow> string) \<Rightarrow> json \<Rightarrow> exn + (string \<times> json) list" where
  \<comment> \<open>lines 123 to 154, and again lines 506 to 537\<close>
  "dynamic_variables repr profile =
     build_items
       [(''caller_name'', get_path profile [(''caller'', JObj []), (''name'', JStr ''there'')]),
        (''loved_one_name'', get_path profile [(''loved_one'', JObj []), (''name'', JStr [])]),
        (''loved_one_nickname'',
           get_path profile [(''loved_one'', JObj []), (''nickname'', JStr [])]),
        (''loved_one_gender'', get_path profile [(''loved_one'', JObj []), (''gender'', JStr [])]),
        (''loved_one_relationship'',
           get_path profile [(''loved_one'', JObj []), (''relationship'', JStr [])]),
        (''has_medications'', lowered repr
           (get_path profile [(''medications'', JObj []), (''has_medications'', JBool False)])),
        (''morning_medications'',
           get_path profile [(''medications'', JObj []), (''morning_medications'', JStr ''none'')]),
        (''afternoon_medications'',
           get_path profile
             [(''medications'', JObj []), (''afternoon_medications'', JStr ''none'')]),
        (''evening_medications'',
           get_path profile [(''medications'', JObj []), (''evening_medications'', JStr ''none'')]),
        (''call_length'',
           get_path profile [(''call_settings'', JObj []), (''length'', JStr ''medium'')]),
        (''voice_preference'',
           get_path profile [(''call_settings'', JObj []), (''voice'', JStr ''female'')]),
        (''call_frequency'',
           get_path profile
             [(''call_settings'', JObj []), (''frequency'', JStr ''daily check ins'')]),
        (''check_medications'', lowered repr
           (get_path profile [(''call_settings'', JObj []), (''checklist'', JObj []),
                              (''medication_reminders'', JBool False)])),
        (''check_sleep'', lowered repr
           (get_path profile [(''call_settings'', JObj []), (''checklist'', JObj []),
                              (''sleep_quality'', JBool False)])),
        (''check_mood'', lowered repr
           (get_path profile [(''call_settings'', JObj []), (''checklist'', JObj []),
                              (''mood_check'', JBool False)])),
        (''check_appointments'', lowered repr
           (get_path profile [(''call_settings'', JObj []), (''checklist'', JObj []),
                              (''upcoming_appointments'', JBool False)])),
        (''notify_daily_summary'', lowered repr
           (get_path profile [(''notifications'', JObj []), (''daily_summary'', JBool False)])),
        (''notify_missed_calls'', lowered repr
           (get_path profile [(''notifications'', JObj []), (''missed_calls'', JBool False)])),
        (''notify_low_sentiment'', lowered repr
           (get_path profile [(''notifications'', JObj []), (''low_sentiment'', JBool False)]))]"

definition time_of_day :: "nat \<Rightarrow> string" where
  "time_of_day h =
     (if 5 \<le> h \<and> h < 12 then ''morning''
      else if 12 \<le> h \<and> h < 17 then ''afternoon''
      else ''evening'')"

section \<open>Conversation initiation\<close>

definition initiation_data :: "(string \<times> json) list \<Rightarrow> json" where
  "initiation_data variables =
     JObj [(''type'', JStr ''conversation_initiation_client_data''),
           (''dynamic_variables'', JObj variables)]"

definition fetch_profile :: "env \<Rightarrow> json \<Rightarrow> effect list \<times> (exn + json)" where
  \<comment> \<open>lines 102 to 107\<close>
  "fetch_profile en caller_id =
     (let url = ''https://520d-83-135-183-58.ngrok-free.app/get-loved-one-profile?phone_number=''
                @ py_str (repr_text en) caller_id
      in ([HttpGet url], http_get_profile en url))"

definition initiation_body :: "env \<Rightarrow> exn + json \<Rightarrow> effect list \<times> (exn + json)" where
  \<comment> \<open>the body of the \<open>try\<close> of lines 84 to 172; \<open>request_json\<close> is what
      \<open>await request.json()\<close> gives\<close>
  "initiation_body en request_json =
     then_eff (pure_step request_json) (\<lambda>data.
     then_eff (pure_step (dict_get data ''caller_id'' JNull)) (\<lambda>caller_id.
     if \<not> truthy caller_id
     then pure_step (Inr (initiation_data [(''caller_name'', JStr ''there'')]))
     else
     then_eff (fetch_profile en caller_id) (\<lambda>profile.
     then_eff (pure_step (py_contains ''error'' profile)) (\<lambda>has_error.
     if has_error
     then then_eff (pure_step (dict_get profile ''caller_name'' (JStr ''there''))) (\<lambda>name.
            pure_step (Inr (initiation_data [(''caller_name'', name)])))
     else then_eff (pure_step (dynamic_variables (repr_text en) profile)) (\<lambda>variables.
            pure_step (Inr (initiation_data
              (variables @ [(''time_of_day'', JStr (time_of_day (hour en)))]))))))))"

definition handle_conversation_initiation :: "env \<Rightarrow> exn + json \<Rightarrow> effect list \<times> response" where
  "handle_conversation_initiation en request_json =
     (case initiation_body en request_json of
        (fx, Inl e) \<Rightarrow> (fx, Returned (initiation_data [(''caller_name'', JStr ''there'')]))
      | (fx, Inr r) \<Rightarrow> (fx, Returned r))"

section \<open>Outbound calls: the appointment variables\<close>

fun first_item :: "json \<Rightarrow> exn + json" where
  \<comment> \<open>\<open>v[0]\<close>\<close>
  "first_item (JArr []) = Inl IndexError"
| "first_item (JArr (x # xs)) = Inr x"
| "first_item (JStr []) = Inl IndexError"
| "first_item (JStr (c # cs)) = Inr (JStr [c])"
| "first_item (JObj kvs) = Inl KeyError"
| "first_item _ = Inl TypeError"

fun first_three :: "json \<Rightarrow> exn + json list" where
  \<comment> \<open>the items of \<open>v[:3]\<close>\<close>
  "first_three (JArr xs) = Inr (take 3 xs)"
| "first_three (JStr s) = Inr (map (\<lambda>c. JStr [c]) (take 3 s))"
| "first_three _ = Inl TypeError"

fun appointment_details :: "(json \<Rightarrow> string) \<Rightarrow> json list \<Rightarrow> exn + string list" where
  \<comment> \<open>the loop of lines 551 and 552\<close>
  "appointment_details repr [] = Inr []"
| "appointment_details repr (appt # rest) =
     then_do (dict_get appt ''title'' JNull) (\<lambda>title.
     then_do (dict_get appt ''date'' JNull) (\<lambda>date.
     then_do (dict_get appt ''time'' JNull) (\<lambda>time.
     then_do (appointment_details repr rest) (\<lambda>details.
       Inr ((py_str repr title @ '' on '' @ py_str repr date @ '' at '' @ py_str repr time)
            # details)))))"

definition appointment_variables :: "(json \<Rightarrow> string) \<Rightarrow> json \<Rightarrow> exn + (string \<times> json) list" where
  \<comment> \<open>lines 539 to 557 of \<open>initiate_call\<close>: the entries put into \<open>dynamic_variables\<close>\<close>
  "appointment_variables repr profile =
     then_do (dict_get profile ''appointments'' (JArr [])) (\<lambda>appointments.
     if truthy appointments
     then
       then_do (first_item appointments) (\<lambda>next_appt.
       then_do (dict_get next_appt ''title'' (JStr [])) (\<lambda>title.
       then_do (dict_get next_appt ''date'' (JStr [])) (\<lambda>date.
       then_do (dict_get next_appt ''time'' (JStr [])) (\<lambda>time.
       then_do (first_three appointments) (\<lambda>first.
       then_do (appointment_details repr first) (\<lambda>appt_details.
         Inr [(''has_upcoming_appointment'', JStr ''true''),
              (''next_appointment_title'', title),
              (''next_appointment_date'', date),
              (''next_appointment_time'', time),
              (''upcoming_appointments'', JStr (py_join '', '' appt_details))]))))))
     else Inr [(''has_upcoming_appointment'', JStr ''false''),
               (''upcoming_appointments'', JStr ''none'')])"

section \<open>The media stream handler\<close>

text \<open>
  The handler talks to the websocket, to the audio interface and to the conversation object
  of the AI engine SDK. What each of their operations does (return or raise) is a
  parameter; the model records the order of the calls. The exceptions are those the
  handler's \<open>except Exception\<close> clauses catch.
\<close>

record session_env =
  new_conversation :: "exn option"      \<comment> \<open>\<open>Conversation(...)\<close> raises\<close>
  start_session :: "exn option"         \<comment> \<open>\<open>conversation.start_session()\<close> raises\<close>
  handle_twilio_message :: "string \<Rightarrow> exn option"
    \<comment> \<open>\<open>json.loads(message)\<close> or \<open>audio_interface.handle_twilio_message\<close> raises\<close>
  end_session :: "exn option"           \<comment> \<open>\<open>conversation.end_session()\<close> raises\<close>
  wait_for_session_end :: "exn option"  \<comment> \<open>\<open>conversation.wait_for_session_end()\<close> raises\<close>

datatype stream_end =
    StreamClosed        \<comment> \<open>\<open>websocket.iter_text()\<close> is exhausted\<close>
  | StreamRaises exn    \<comment> \<open>it raises: \<open>WebSocketDisconnect\<close> or another exception\<close>

datatype session_call =
    Accept
  | NewConversation
  | StartSession
  | HandleMessage string
  | EndSession
  | WaitForSessionEnd

fun relay :: "session_env \<Rightarrow> string list \<Rightarrow> stream_end \<Rightarrow> session_call list \<times> exn option" where
  \<comment> \<open>the loop of lines 457 to 460 over the frames received\<close>
  "relay se [] ending =
     ([], case ending of StreamClosed \<Rightarrow> None | StreamRaises e \<Rightarrow> Some e)"
| "relay se (message # rest) ending =
     (if message = [] then relay se rest ending
      else
        (case handle_twilio_message se message of
           Some e \<Rightarrow> ([HandleMessage message], Some e)
         | None \<Rightarrow>
             (case relay se rest ending of
                (calls, r) \<Rightarrow> (HandleMessage message # calls, r))))"

definition session_body ::
  "session_env \<Rightarrow> string list \<Rightarrow> stream_end \<Rightarrow> session_call list \<times> bool \<times> exn option" where
  \<comment> \<open>the body of the \<open>try\<close> of lines 445 to 460: the calls made, whether \<open>conversation\<close>
      was bound, and the exception that ended it\<close>
  "session_body se frames ending =
     (case new_conversation se of
        Some e \<Rightarrow> ([NewConversation], False, Some e)
      | None \<Rightarrow>
          (case start_session se of
             Some e \<Rightarrow> ([NewConversation, StartSession], True, Some e)
           | None \<Rightarrow>
               (case relay se frames ending of
                  (calls, r) \<Rightarrow> (NewConversation # StartSession # calls, True, r))))"

definition teardown :: "session_env \<Rightarrow> bool \<Rightarrow> session_call list" where
  \<comment> \<open>the \<open>finally\<close> of lines 467 to 474; its own exceptions are caught there, also the
      \<open>NameError\<close> on an unbound \<open>conversation\<close>\<close>
  "teardown se bound =
     (if \<not> bound then []
      else
        (case end_session se of
           Some e \<Rightarrow> [EndSession]
         | None \<Rightarrow> [EndSession, WaitForSessionEnd]))"

definition handle_media_stream :: "session_env \<Rightarrow> string list \<Rightarrow> stream_end \<Rightarrow> session_call list" where
  "handle_media_stream se frames ending =
     (case session_body se frames ending of
        (calls, bound, r) \<Rightarrow> Accept # calls @ teardown se bound)"

section \<open>The appointment summary, as the specification words it\<close>

definition record_field :: "(string \<times> json) list \<Rightarrow> string \<Rightarrow> json \<Rightarrow> json" where
  \<comment> \<open>the field of a record, or the default where the record has none\<close>
  "record_field r key dflt = (case map_of r key of None \<Rightarrow> dflt | Some v \<Rightarrow> v)"

definition appointment_line :: "(json \<Rightarrow> string) \<Rightarrow> (string \<times> json) list \<Rightarrow> string" where
  \<comment> \<open>\<open><title> on <date> at <time>\<close>\<close>
  "appointment_line repr r =
     py_str repr (record_field r ''title'' JNull) @ '' on ''
     @ py_str repr (record_field r ''date'' JNull) @ '' at ''
     @ py_str repr (record_field r ''time'' JNull)"

definition appointment_summary ::
  "(json \<Rightarrow> string) \<Rightarrow> (string \<times> json) list list \<Rightarrow> (string \<times> json) list" where
  "appointment_summary repr records =
     (case records of
        [] \<Rightarrow> [(''has_upcoming_appointment'', JStr ''false''),
               (''upcoming_appointments'', JStr ''none'')]
      | nearest # others \<Rightarrow>
          [(''has_upcoming_appointment'', JStr ''true''),
           (''next_appointment_title'', record_field nearest ''title'' (JStr [])),
           (''next_appointment_date'', record_field nearest ''date'' (JStr [])),
           (''next_appointment_time'', record_field nearest ''time'' (JStr [])),
           (''upcoming_appointments'',
              JStr (separated '', '' (map (appointment_line repr) (take 3 records))))])"

section \<open>Example inputs\<close>

definition example_env :: env where
  "example_env =
     \<lparr>WEBHOOK_SECRET = ''secret'',
      hmac_sha256_hex = (\<lambda>k m. if m = ''1.{}'' then ''0a'' else ''0b''),
      decode_utf8 = Some,
      json_loads = (\<lambda>s. Some (JObj [])),
      execute = (\<lambda>c. Inr []),
      http_get_profile = (\<lambda>u. Inl (External ''unreachable'')),
      repr_text = (\<lambda>v. ''?''),
      exn_text = (\<lambda>e. ''error''),
      hour = 9\<rparr>"

definition store_env :: "json \<Rightarrow> env" where
  \<comment> \<open>every body parses to the given payload, every digest is \<open>0a\<close>, the datastore knows
      no caller and answers an insert with a row of id 7\<close>
  "store_env payload =
     example_env
       \<lparr>hmac_sha256_hex := (\<lambda>k m. ''0a''),
        json_loads := (\<lambda>s. Some payload),
        execute := (\<lambda>c. case c of
                      Select t cols col v \<Rightarrow> Inr []
                    | Insert t row \<Rightarrow> Inr [JObj [(''id'', JNum 7)]])\<rparr>"

definition payload_null_phone_call :: json where
  \<comment> \<open>a call without a telephone leg: \<open>"phone_call": null\<close>, and no caller id elsewhere\<close>
  "payload_null_phone_call =
     JObj [(''data'', JObj
       [(''conversation_id'', JStr ''conv_1''),
        (''metadata'', JObj [(''phone_call'', JNull)])])]"

definition four_appointments :: "(string \<times> json) list list" where
  "four_appointments =
     [[(''title'', JStr ''Dentist''), (''date'', JStr ''2025-05-01''),
       (''time'', JStr ''10:00''), (''frequency'', JNull)],
      [(''title'', JStr ''Eye exam''), (''date'', JStr ''2025-05-03''),
       (''time'', JStr ''09:30''), (''frequency'', JStr ''yearly'')],
      [(''title'', JStr ''Walk''), (''date'', JNull),
       (''time'', JStr ''17:00''), (''frequency'', JStr ''daily'')],
      [(''title'', JStr ''Cardiology''), (''date'', JStr ''2025-06-12''),
       (''time'', JStr ''08:15''), (''frequency'', JNull)]]"

definition payload_two_turns :: json where
  "payload_two_turns =
     JObj [(''data'', JObj
       [(''conversation_id'', JStr ''conv_1''),
        (''metadata'', JObj [(''phone_call'', JObj [(''external_number'', JStr ''+15550100'')])]),
        (''transcript'', JArr
           [JObj [(''role'', JStr ''agent''), (''message'', JStr ''Hi'')],
            JObj [(''role'', JStr ''user''), (''message'', JStr ''Hello'')]])])]"

definition profile_env :: env where
  \<comment> \<open>a datastore with one caller, her loved one, two medications and one appointment\<close>
  "profile_env =
     example_env
       \<lparr>execute := (\<lambda>c. case c of
           Select t cols col v \<Rightarrow>
             (if t = ''users''
              then Inr [JObj [(''id'', JNum 1), (''user_name'', JStr ''Ana'')]]
              else if t = ''loved_ones''
              then Inr [JObj [(''id'', JNum 2), (''name'', JStr ''Bo''),
                              (''nickname'', JStr ''B''), (''age_range'', JStr ''70-80''),
                              (''gender'', JStr ''female''),
                              (''relationship_to_user'', JStr ''mother'')]]
              else if t = ''medications''
              then Inr [JObj [(''medication_name'', JStr ''Aspirin''),
                              (''time_taken'', JArr [JStr ''Morning'', JStr ''Evening''])],
                        JObj [(''medication_name'', JStr ''Zinc''),
                              (''time_taken'', JStr ''afternoon, EVENING'')]]
              else if t = ''consolidated_appointments''
              then Inr [JObj [(''appointment_title'', JStr ''Dentist''),
                              (''appointment_date'', JStr ''2025-05-01''),
                              (''appointment_time'', JStr ''10:00''),
                              (''frequency'', JNull)]]
              else Inr [])
         | Insert t row \<Rightarrow> Inr [])\<rparr>"

definition example_profile :: json where
  \<comment> \<open>the profile assembled from the datastore of \<open>profile_env\<close>\<close>
  "example_profile =
     JObj
       [(''caller'', JObj [(''name'', JStr ''Ana'')]),
        (''loved_one'',
           JObj [(''name'', JStr ''Bo''), (''nickname'', JStr ''B''),
                 (''age_range'', JStr ''70-80''), (''gender'', JStr ''female''),
                 (''relationship'', JStr ''mother'')]),
        (''medications'',
           JObj [(''has_medications'', JBool True),
                 (''morning_medications'', JStr ''Aspirin''),
                 (''afternoon_medications'', JStr ''Zinc''),
                 (''evening_medications'', JStr ''Aspirin, Zinc'')]),
        (''call_settings'',
           JObj [(''length'', JStr ''medium''), (''voice'', JStr ''female''),
                 (''frequency'', JStr ''daily check ins''),
                 (''checklist'',
                    JObj [(''medication_reminders'', JBool False),
                          (''sleep_quality'', JBool False), (''mood_check'', JBool False),
                          (''upcoming_appointments'', JBool False)])]),
        (''notifications'',
           JObj [(''daily_summary'', JBool False), (''missed_calls'', JBool False),
                 (''low_sentiment'', JBool False)]),
        (''appointments'',
           JArr [JObj [(''title'', JStr ''Dentist''), (''date'', JStr ''2025-05-01''),
                       (''time'', JStr ''10:00''), (''frequency'', JNull)]])]"

definition failing_env :: env where
  \<comment> \<open>the datastore of \<open>profile_env\<close>, with a medication whose name is null\<close>
  "failing_env =
     profile_env
       \<lparr>execute := (\<lambda>c. case c of
           Select t cols col v \<Rightarrow>
             (if t = ''medications''
              then Inr [JObj [(''medication_name'', JNull),
                              (''time_taken'', JArr [JStr ''morning''])]]
              else execute profile_env c)
         | Insert t row \<Rightarrow> Inr [])\<rparr>"

definition unreachable_env :: env where
  \<comment> \<open>a datastore that cannot be reached\<close>
  "unreachable_env = example_env \<lparr>execute := (\<lambda>c. Inl (External ''connection refused''))\<rparr>"

definition failing_end_session :: session_env where
  \<comment> \<open>an SDK whose \<open>end_session\<close> raises\<close>
  "failing_end_session =
     \<lparr>new_conversation = None, start_session = None,
      handle_twilio_message = (\<lambda>m. None),
      end_session = Some (External ''audio interface already stopped''),
      wait_for_session_end = None\<rparr>"

definition faulty_relay :: session_env where
  \<comment> \<open>an SDK that works, with an audio interface that fails on the frame \<open>stop\<close>\<close>
  "faulty_relay =
     \<lparr>new_conversation = None, start_session = None,
      handle_twilio_message = (\<lambda>m. if m = ''stop'' then Some KeyError else None),
      end_session = None,
      wait_for_session_end = None\<rparr>"

section \<open>Properties of phone normalization\<close>

lemma is_space_blank: "is_space CHR '' ''"
  by (simp add: is_space_def)

lemma not_is_space_plus: "\<not> is_space CHR ''+''"
  by (simp add: is_space_def)

lemma py_lstrip_hd: "py_lstrip s \<noteq> [] \<Longrightarrow> \<not> is_space (hd (py_lstrip s))"
  unfolding py_lstrip_def by (simp add: hd_dropWhile)

lemma py_rstrip_last: "py_rstrip s \<noteq> [] \<Longrightarrow> \<not> is_space (last (py_rstrip s))"
proof -
  assume "py_rstrip s \<noteq> []"
  then have ne: "dropWhile is_space (rev s) \<noteq> []"
    by (simp add: py_rstrip_def)
  then have "\<not> is_space (hd (dropWhile is_space (rev s)))"
    by (rule hd_dropWhile)
  moreover have "last (py_rstrip s) = hd (dropWhile is_space (rev s))"
    unfolding py_rstrip_def by (rule last_rev)
  ultimately show ?thesis by simp
qed

lemma py_rstrip_keeps_hd:
  assumes "s \<noteq> []" "\<not> is_space (hd s)"
  shows "py_rstrip s \<noteq> [] \<and> hd (py_rstrip s) = hd s"
proof -
  from assms obtain c cs where s: "s = c # cs" and c: "\<not> is_space c"
    by (cases s) auto
  have "dropWhile is_space (rev cs @ [c]) = dropWhile is_space (rev cs) @ [c]"
    using c by (simp add: dropWhile_append3)
  then have "py_rstrip s = c # rev (dropWhile is_space (rev cs))"
    by (simp add: py_rstrip_def s)
  then show ?thesis by (simp add: s)
qed

lemma trimmed_py_strip: "trimmed (py_strip s)"
proof (cases "py_lstrip s = []")
  case True
  then show ?thesis by (simp add: trimmed_def py_strip_def py_rstrip_def)
next
  case False
  then have h: "\<not> is_space (hd (py_lstrip s))" by (rule py_lstrip_hd)
  from py_rstrip_keeps_hd [OF False h]
  have ne: "py_rstrip (py_lstrip s) \<noteq> []"
    and hd: "hd (py_rstrip (py_lstrip s)) = hd (py_lstrip s)" by simp_all
  from py_rstrip_last [OF ne] h hd show ?thesis
    by (simp add: trimmed_def py_strip_def)
qed

lemma py_strip_trimmed: "trimmed s \<Longrightarrow> py_strip s = s"
proof -
  assume t: "trimmed s"
  have l: "py_lstrip s = s"
    unfolding py_lstrip_def dropWhile_eq_self_iff using t by (auto simp only: trimmed_def)
  have "rev s = [] \<or> \<not> is_space (hd (rev s))"
    unfolding hd_rev rev_is_Nil_conv using t by (auto simp only: trimmed_def)
  then have "dropWhile is_space (rev s) = rev s"
    by (simp only: dropWhile_eq_self_iff)
  then have "py_rstrip s = s"
    by (simp only: py_rstrip_def rev_rev_ident)
  with l show ?thesis by (simp only: py_strip_def)
qed

lemma trimmed_remove_spaces: "trimmed s \<Longrightarrow> trimmed (remove_spaces s)"
proof (cases s rule: rev_cases)
  case Nil
  then show ?thesis by (simp add: trimmed_def remove_spaces_def)
next
  case (snoc ys y)
  assume t: "trimmed s"
  show ?thesis
  proof (cases ys)
    case Nil
    with snoc t show ?thesis
      by (auto simp: trimmed_def remove_spaces_def)
  next
    case (Cons c cs)
    with snoc t have c: "\<not> is_space c" and y: "\<not> is_space y"
      by (simp_all add: trimmed_def)
    then have "c \<noteq> CHR '' ''" "y \<noteq> CHR '' ''"
      using is_space_blank by auto
    then show ?thesis
      using c y by (simp add: trimmed_def remove_spaces_def snoc Cons)
  qed
qed

lemma remove_spaces_idem: "remove_spaces (remove_spaces s) = remove_spaces s"
  by (simp add: remove_spaces_def)

lemma trimmed_plus_Cons: "trimmed s \<Longrightarrow> trimmed (CHR ''+'' # s)"
  by (cases s) (simp_all add: trimmed_def not_is_space_plus)

lemma normalize_number_fixed:
  assumes "trimmed n" "remove_spaces n = n" "startswith_plus n"
  shows "normalize_number n = n"
  using assms by (simp add: normalize_number_def py_strip_trimmed)

text \<open>
  Claim C9. Phone normalization (strip surrounding whitespace, remove the spaces inside,
  then put a \<open>+\<close> in front unless one is there) is idempotent: normalizing a normalized
  number changes nothing, for every input string. Concretely, \<open>" 1234567890 "\<close> normalizes
  to \<open>"+1234567890"\<close>.
\<close>

theorem normalize_number_idempotent:
  "normalize_number (normalize_number x) = normalize_number x
   \<and> normalize_number '' 1234567890 '' = ''+1234567890''"
proof
  define n where "n = remove_spaces (py_strip x)"
  have tn: "trimmed n"
    unfolding n_def by (rule trimmed_remove_spaces) (rule trimmed_py_strip)
  have rn: "remove_spaces n = n"
    unfolding n_def by (rule remove_spaces_idem)
  show "normalize_number (normalize_number x) = normalize_number x"
  proof (cases "startswith_plus n")
    case True
    then have "normalize_number x = n"
      by (simp add: normalize_number_def n_def)
    with normalize_number_fixed [OF tn rn True] show ?thesis by simp
  next
    case False
    then have nx: "normalize_number x = CHR ''+'' # n"
      by (simp add: normalize_number_def n_def)
    have "normalize_number (CHR ''+'' # n) = CHR ''+'' # n"
    proof (rule normalize_number_fixed)
      show "trimmed (CHR ''+'' # n)" using tn by (rule trimmed_plus_Cons)
      show "remove_spaces (CHR ''+'' # n) = CHR ''+'' # n"
        using rn by (simp add: remove_spaces_def)
      show "startswith_plus (CHR ''+'' # n)" by (simp add: startswith_plus_def)
    qed
    with nx show ?thesis by simp
  qed
next
  show "normalize_number '' 1234567890 '' = ''+1234567890''"
    by code_simp
qed

section \<open>Properties of the signature header parser\<close>

lemma split_on_not_Nil: "split_on sep s \<noteq> []"
  by (induction s) (auto split: list.splits)

lemma length_split_on: "length (split_on sep s) = Suc (count_list s sep)"
proof (induction s)
  case Nil
  then show ?case by simp
next
  case (Cons c cs)
  then show ?case
    using split_on_not_Nil [of sep cs] by (cases "split_on sep cs") auto
qed

lemma split_on_no_sep: "sep \<notin> set s \<Longrightarrow> split_on sep s = [s]"
  by (induction s) auto

lemma split_on_append_sep:
  "sep \<notin> set a \<Longrightarrow> split_on sep (a @ sep # b) = a # split_on sep b"
  by (induction a) auto

lemma dict_of_parts_wrong_length:
  assumes "length q \<noteq> 2"
  shows "dict_of_parts (q # qs) m = Inl ValueError"
proof (cases q)
  case Nil
  then show ?thesis by simp
next
  case q: (Cons a as)
  show ?thesis
  proof (cases as)
    case Nil
    with q show ?thesis by simp
  next
    case (Cons b bs)
    with q assms obtain c cs where "bs = c # cs" by (cases bs) auto
    with q Cons show ?thesis by simp
  qed
qed

lemma dict_of_parts_bad_length:
  "p \<in> set ps \<Longrightarrow> length p \<noteq> 2 \<Longrightarrow> dict_of_parts ps m = Inl ValueError"
proof (induction ps arbitrary: m)
  case Nil
  then show ?case by simp
next
  case (Cons q qs)
  show ?case
  proof (cases "length q = 2")
    case True
    then obtain k v where q: "q = [k, v]"
      by (auto simp: length_Suc_conv numeral_2_eq_2)
    with Cons.prems have "p \<in> set qs" by auto
    then have "dict_of_parts qs (m(k \<mapsto> v)) = Inl ValueError"
      using Cons.prems(2) by (rule Cons.IH)
    then show ?thesis by (simp only: q dict_of_parts.simps)
  next
    case False
    then show ?thesis by (rule dict_of_parts_wrong_length)
  qed
qed

lemma parse_signature_header_raises:
  assumes "part \<in> set (split_on CHR '','' h)" and "count_list part CHR ''='' \<noteq> 1"
  shows "parse_signature_header h = Inl ValueError"
proof -
  have "split_on CHR ''='' part \<in> set (map (split_on CHR ''='') (split_on CHR '','' h))"
    using assms(1) by simp
  moreover have "length (split_on CHR ''='' part) \<noteq> 2"
    using assms(2) by (simp add: length_split_on)
  ultimately show ?thesis
    unfolding parse_signature_header_def by (rule dict_of_parts_bad_length)
qed

lemma handle_call_end_parse_error:
  assumes "h \<noteq> []" and "parse_signature_header h = Inl e"
  shows "handle_call_end en \<lparr>signature_header = Some h, body = b\<rparr> = ([], Unhandled e)"
  using assms by (simp add: handle_call_end_def verify_signature_def absent_def)

text \<open>
  Claim C10. Some signature headers that are present but malformed make the header-parsing
  step of the call-end webhook raise an exception nothing handles, so that the request ends
  in a server error and not in the 401 of the other authentication failures. It is so for
  every non-empty header with a comma-separated segment that holds no \<open>=\<close> or more than
  one; \<open>t=1,v0\<close> is such a header.
\<close>

theorem malformed_signature_header_unhandled:
  assumes "h \<noteq> []"
    and "part \<in> set (split_on CHR '','' h)"
    and "count_list part CHR ''='' \<noteq> 1"
  shows "handle_call_end en \<lparr>signature_header = Some h, body = b\<rparr> = ([], Unhandled ValueError)
         \<and> (\<forall>detail. snd (handle_call_end en \<lparr>signature_header = Some h, body = b\<rparr>)
               \<noteq> HTTPException 401 detail)"
proof -
  have "parse_signature_header h = Inl ValueError"
    using assms(2,3) by (rule parse_signature_header_raises)
  with assms(1) have
    "handle_call_end en \<lparr>signature_header = Some h, body = b\<rparr> = ([], Unhandled ValueError)"
    by (rule handle_call_end_parse_error)
  then show ?thesis by simp
qed

theorem malformed_signature_header_unhandled_witness:
  "''t=1=2,v0=0a'' \<noteq> []
   \<and> ''t=1=2'' \<in> set (split_on CHR '','' ''t=1=2,v0=0a'')
   \<and> count_list ''t=1=2'' CHR ''='' \<noteq> 1
   \<and> handle_call_end example_env \<lparr>signature_header = Some ''t=1=2,v0=0a'', body = ''{}''\<rparr>
       = ([], Unhandled ValueError)"
  using malformed_signature_header_unhandled
    [of "''t=1=2,v0=0a''" "''t=1=2''" example_env "''{}''"]
  by simp

text \<open>
  Claim C2. Each of the three authentication failures of the call-end webhook (no signature
  header, a header without the \<open>t\<close> or the \<open>v0\<close> key, a digest that does not match)
  gives the outcome 401 and no other. The code does not do so: the header \<open>t=1,v0\<close> has
  no \<open>v0\<close> key, and the handler ends in an unhandled \<open>ValueError\<close>, whatever the
  secret and the body.
\<close>

theorem header_without_v0_key_not_401:
  "handle_call_end en \<lparr>signature_header = Some ''t=1,v0'', body = b\<rparr>
     = ([], Unhandled ValueError)"
proof -
  have "parse_signature_header ''t=1,v0'' = Inl ValueError"
    by (simp add: parse_signature_header_def)
  then show ?thesis
    by (simp add: handle_call_end_parse_error)
qed

theorem header_without_v0_key_not_401_witness:
  "handle_call_end example_env \<lparr>signature_header = Some ''t=1,v0'', body = ''{}''\<rparr>
     = ([], Unhandled ValueError)"
  by (rule header_without_v0_key_not_401)

section \<open>Properties of the signature check\<close>

lemma parse_signed_header:
  assumes "CHR '','' \<notin> set T" "CHR ''='' \<notin> set T" "CHR '','' \<notin> set d" "CHR ''='' \<notin> set d"
  shows "parse_signature_header (signed_header T d) = Inr [''t'' \<mapsto> T, ''v0'' \<mapsto> d]"
proof -
  have hd: "signed_header T d = (''t='' @ T) @ CHR '','' # (''v0='' @ d)"
    by (simp add: signed_header_def)
  have c1: "CHR '','' \<notin> set (''t='' @ T)" and c2: "CHR '','' \<notin> set (''v0='' @ d)"
    using assms by simp_all
  have "split_on CHR '','' ((''t='' @ T) @ CHR '','' # (''v0='' @ d))
          = (''t='' @ T) # split_on CHR '','' (''v0='' @ d)"
    using c1 by (rule split_on_append_sep)
  moreover have "split_on CHR '','' (''v0='' @ d) = [''v0='' @ d]"
    using c2 by (rule split_on_no_sep)
  ultimately have parts: "split_on CHR '','' (signed_header T d) = [''t='' @ T, ''v0='' @ d]"
    by (simp only: hd)
  have sT: "split_on CHR ''='' T = [T]"
    using assms(2) by (rule split_on_no_sep)
  have sd: "split_on CHR ''='' d = [d]"
    using assms(4) by (rule split_on_no_sep)
  show ?thesis
    by (simp add: parse_signature_header_def parts sT sd)
qed

lemma verify_signed_header:
  assumes "timestamp_text T" "signature_text d"
    and "list_all is_ascii (expected_digest en T B)"
    and "decode_utf8 en b = Some B"
  shows "verify_signature en \<lparr>signature_header = Some (signed_header T d), body = b\<rparr> =
           ([HmacNew (WEBHOOK_SECRET en) (T @ ''.'' @ B)],
            if d = expected_digest en T B then Inr B
            else Inl (HTTPException 401 ''Invalid signature''))"
proof -
  have d: "d \<noteq> []" "CHR '','' \<notin> set d" "CHR ''='' \<notin> set d" "list_all is_ascii d"
    using assms(2) by (auto simp: signature_text_def list_all_iff)
  have T: "T \<noteq> []" "CHR '','' \<notin> set T" "CHR ''='' \<notin> set T"
    using assms(1) by (simp_all add: timestamp_text_def)
  have p: "parse_signature_header (signed_header T d) = Inr [''t'' \<mapsto> T, ''v0'' \<mapsto> d]"
    using T(2,3) d(2,3) by (rule parse_signed_header)
  have h: "signed_header T d \<noteq> []" by (simp add: signed_header_def)
  show ?thesis
    using h T(1) d(1,4) assms(3,4)
    by (simp add: verify_signature_def absent_def p compare_digest_def expected_digest_def)
qed

lemma undecodable_body_unhandled:
  assumes "timestamp_text T" "signature_text d"
    and "decode_utf8 en b = None"
  shows "handle_call_end en \<lparr>signature_header = Some (signed_header T d), body = b\<rparr>
           = ([], Unhandled UnicodeDecodeError)"
proof -
  have d: "d \<noteq> []" "CHR '','' \<notin> set d" "CHR ''='' \<notin> set d"
    using assms(2) by (auto simp: signature_text_def list_all_iff)
  have T: "T \<noteq> []" "CHR '','' \<notin> set T" "CHR ''='' \<notin> set T"
    using assms(1) by (simp_all add: timestamp_text_def)
  have p: "parse_signature_header (signed_header T d) = Inr [''t'' \<mapsto> T, ''v0'' \<mapsto> d]"
    using T(2,3) d(2,3) by (rule parse_signed_header)
  have h: "signed_header T d \<noteq> []" by (simp add: signed_header_def)
  show ?thesis
    using h T(1) d(1) assms(3)
    by (simp add: handle_call_end_def verify_signature_def absent_def p)
qed

text \<open>
  Claim C1. The call-end webhook accepts the request when the \<open>v0\<close> value of the header
  is the hexadecimal digest of HMAC-SHA256 over \<open>T + "." + B\<close> under the secret, and
  rejects it as unauthorized (401) when the digest provided is another one. The handler
  does not reject every other digest so: a \<open>v0\<close> value that is not ASCII text is never the
  hexadecimal digest, and for every timestamp and every body that decodes, the comparison
  \<open>hmac.compare_digest\<close> raises \<open>TypeError\<close> on it, which nothing handles; the request
  ends in a server error, after the digest was computed. The header \<open>t=1,v0=\<close> followed
  by the code point \<open>0xE9\<close> is one.
\<close>

theorem non_ascii_digest_not_401:
  assumes "timestamp_text T"
    and "d \<noteq> []" and "CHR '','' \<notin> set d" and "CHR ''='' \<notin> set d"
    and "\<not> list_all is_ascii d"
    and "decode_utf8 en b = Some B"
  shows "handle_call_end en \<lparr>signature_header = Some (signed_header T d), body = b\<rparr>
           = ([HmacNew (WEBHOOK_SECRET en) (T @ ''.'' @ B)], Unhandled TypeError)"
proof -
  have T: "T \<noteq> []" "CHR '','' \<notin> set T" "CHR ''='' \<notin> set T"
    using assms(1) by (simp_all add: timestamp_text_def)
  have p: "parse_signature_header (signed_header T d) = Inr [''t'' \<mapsto> T, ''v0'' \<mapsto> d]"
    using T(2,3) assms(3,4) by (rule parse_signed_header)
  have h: "signed_header T d \<noteq> []" by (simp add: signed_header_def)
  have v: "verify_signature en \<lparr>signature_header = Some (signed_header T d), body = b\<rparr>
      = ([HmacNew (WEBHOOK_SECRET en) (T @ ''.'' @ B)], Inl (Unhandled TypeError))"
    using h T(1) assms(2,5,6)
    by (simp add: verify_signature_def absent_def p compare_digest_def)
  show ?thesis
    by (simp add: handle_call_end_def v)
qed

theorem non_ascii_digest_not_401_witness:
  "timestamp_text ''1''
   \<and> \<not> list_all is_ascii [CHR 0xE9]
   \<and> decode_utf8 example_env ''{}'' = Some ''{}''
   \<and> [CHR 0xE9] \<noteq> expected_digest example_env ''1'' ''{}''
   \<and> handle_call_end example_env
        \<lparr>signature_header = Some (''t=1,v0='' @ [CHR 0xE9]), body = ''{}''\<rparr>
       = ([HmacNew ''secret'' ''1.{}''], Unhandled TypeError)"
  using non_ascii_digest_not_401 [of "''1''" "[CHR 0xE9]" example_env "''{}''" "''{}''"]
  by (simp add: timestamp_text_def is_ascii_def example_env_def expected_digest_def
      signed_header_def)

section \<open>Properties of the call-end webhook after authentication\<close>

lemma verify_signature_no_db_calls:
  "verify_signature en request = (fx, r) \<Longrightarrow> db_calls fx = []"
  by (auto simp: verify_signature_def db_calls_def Let_def
      split: if_splits sum.splits option.splits)

lemma missing_fields_reply:
  assumes "verify_signature en request = (fx, Inr body_str)"
    and "json_loads en body_str = Some data"
    and "extract_ids data = Inr (conversation_id, caller_id)"
  shows "(\<not> truthy conversation_id \<or> \<not> truthy caller_id \<longrightarrow>
            handle_call_end en request
              = (fx, Returned (status_message ''error'' ''Missing required fields''))
            \<and> db_calls (fst (handle_call_end en request)) = [])
         \<and> (truthy conversation_id \<and> truthy caller_id
              \<and> get_path data [(''data'', JObj []), (''transcript'', JArr [])] = Inr transcript
              \<and> \<not> truthy transcript \<longrightarrow>
            handle_call_end en request
              = (fx, Returned (status_message ''error'' ''No transcript available''))
            \<and> db_calls (fst (handle_call_end en request)) = [])"
proof -
  have fx: "db_calls fx = []"
    using assms(1) by (rule verify_signature_no_db_calls)
  have missing: "handle_call_end en request
      = (fx, Returned (status_message ''error'' ''Missing required fields''))"
    if "\<not> truthy conversation_id \<or> \<not> truthy caller_id"
    using assms that by (auto simp: handle_call_end_def)
  have none: "handle_call_end en request
      = (fx, Returned (status_message ''error'' ''No transcript available''))"
    if "truthy conversation_id" "truthy caller_id"
      "get_path data [(''data'', JObj []), (''transcript'', JArr [])] = Inr transcript"
      "\<not> truthy transcript"
  proof -
    have "save_call en data caller_id
        = ([], Inr (status_message ''error'' ''No transcript available''))"
      using that(3,4) by (simp add: save_call_def then_eff_def pure_step_def)
    with assms that(1,2) show ?thesis
      by (simp add: handle_call_end_def)
  qed
  from missing none fx show ?thesis by simp
qed

lemma extract_ids_null_phone_call:
  assumes "get_path data [(''data'', JObj []), (''metadata'', JObj []),
                          (''phone_call'', JObj [])] = Inr JNull"
  shows "extract_ids data = Inl AttributeError"
proof -
  from assms obtain w where w: "dict_get data ''data'' (JObj []) = Inr w"
    by (cases "dict_get data ''data'' (JObj [])") (simp_all add: then_do_def)
  with assms obtain m where m: "dict_get w ''metadata'' (JObj []) = Inr m"
    by (cases "dict_get w ''metadata'' (JObj [])") (simp_all add: then_do_def)
  from assms w m have p: "dict_get m ''phone_call'' (JObj []) = Inr JNull"
    by (cases "dict_get m ''phone_call'' (JObj [])") (simp_all add: then_do_def)
  from m obtain kvs where "w = JObj kvs"
    by (cases w) simp_all
  then obtain c where c: "dict_get w ''conversation_id'' JNull = Inr c"
    by simp
  show ?thesis
    by (simp add: extract_ids_def then_do_def w m p c)
qed

text \<open>
  Claim C5. For every authenticated call-end payload in which the conversation id or the
  caller phone (looked up in both places) is missing, the handler returns the error
  \<open>Missing required fields\<close> and makes no datastore call. The handler does not do so for
  a payload whose \<open>phone_call\<close> is \<open>null\<close>, with whatever else in it: the lookup of the
  caller phone on line 233 calls \<open>get\<close> on \<open>None\<close>, before the \<open>try\<close> of line 243, and
  the request ends in a server error in the place of the structured error.
\<close>

theorem null_phone_call_unhandled:
  assumes "verify_signature en request = (fx, Inr body_str)"
    and "json_loads en body_str = Some data"
    and "get_path data [(''data'', JObj []), (''metadata'', JObj []),
                        (''phone_call'', JObj [])] = Inr JNull"
  shows "handle_call_end en request = (fx, Unhandled AttributeError)"
  using assms(1,2) extract_ids_null_phone_call [OF assms(3)]
  by (simp add: handle_call_end_def)

theorem null_phone_call_unhandled_witness:
  "verify_signature (store_env payload_null_phone_call)
      \<lparr>signature_header = Some ''t=1,v0=0a'', body = ''{}''\<rparr>
     = ([HmacNew ''secret'' ''1.{}''], Inr ''{}'')
   \<and> json_loads (store_env payload_null_phone_call) ''{}'' = Some payload_null_phone_call
   \<and> get_path payload_null_phone_call
        [(''data'', JObj []), (''metadata'', JObj []), (''phone_call'', JObj [])] = Inr JNull
   \<and> get_path payload_null_phone_call
        [(''conversation_initiation_client_data'', JObj []), (''dynamic_variables'', JObj []),
         (''system__caller_id'', JNull)] = Inr JNull
   \<and> handle_call_end (store_env payload_null_phone_call)
        \<lparr>signature_header = Some ''t=1,v0=0a'', body = ''{}''\<rparr>
       = ([HmacNew ''secret'' ''1.{}''], Unhandled AttributeError)"
proof -
  let ?rq = "\<lparr>signature_header = Some ''t=1,v0=0a'', body = ''{}''\<rparr>"
  have v: "verify_signature (store_env payload_null_phone_call) ?rq
      = ([HmacNew ''secret'' ''1.{}''], Inr ''{}'')"
    by (simp add: verify_signature_def parse_signature_header_def absent_def store_env_def
        example_env_def compare_digest_def is_ascii_def)
  have j: "json_loads (store_env payload_null_phone_call) ''{}'' = Some payload_null_phone_call"
    by (simp add: store_env_def)
  have g: "get_path payload_null_phone_call
        [(''data'', JObj []), (''metadata'', JObj []), (''phone_call'', JObj [])] = Inr JNull"
    by (simp add: payload_null_phone_call_def then_do_def)
  have g2: "get_path payload_null_phone_call
        [(''conversation_initiation_client_data'', JObj []), (''dynamic_variables'', JObj []),
         (''system__caller_id'', JNull)] = Inr JNull"
    by (simp add: payload_null_phone_call_def then_do_def)
  from null_phone_call_unhandled [OF v j g] v j g g2 show ?thesis by blast
qed

section \<open>Properties of the transcript text\<close>

lemma py_join_separated: "py_join sep xs = separated sep xs"
  by (induction sep xs rule: py_join.induct) simp_all

lemma py_capitalize_unknown: "py_capitalize ''unknown'' = Some ''Unknown''"
  by code_simp

lemma transcript_lines_turns:
  "list_all turn entries \<Longrightarrow>
   transcript_lines repr entries =
     Inr (map turn_line (filter (\<lambda>e. turn_message e \<noteq> []) entries))"
proof (induction entries)
  case Nil
  then show ?case by simp
next
  case (Cons e es)
  then have IH: "transcript_lines repr es =
      Inr (map turn_line (filter (\<lambda>e. turn_message e \<noteq> []) es))"
    by simp
  from Cons.prems have "turn e" by simp
  then show ?case
    by (auto simp: turn_def turn_role_def turn_message_def turn_line_def IH then_do_def
        capitalize_value_def py_capitalize_unknown
        split: json.splits option.splits)
qed

lemma format_transcript_turns:
  "list_all turn entries \<Longrightarrow>
   format_transcript repr (JArr entries) = Inr (transcript_text entries)"
  by (simp add: format_transcript_def transcript_lines_turns then_do_def transcript_text_def
      py_join_separated)

lemma in_then_effE:
  assumes "x \<in> set (fst (then_eff r f))"
  obtains "x \<in> set (fst r)" | v where "snd r = Inr v" "x \<in> set (fst (f v))"
  using assms by (auto simp: then_eff_def split: prod.splits sum.splits)

lemma lookup_or_create_user_effects:
  "Execute (Insert ''conversations'' row) \<notin> set (fst (lookup_or_create_user en n))"
  by (auto simp: lookup_or_create_user_def run_query_def pure_step_def then_eff_def
      split: prod.splits sum.splits if_splits)

lemma save_call_conversation_row:
  assumes "Execute (Insert ''conversations'' row) \<in> set (fst (save_call en data caller_id))"
    and "get_path data [(''data'', JObj []), (''transcript'', JArr [])] = Inr transcript"
  shows "\<exists>full_text. format_transcript (repr_text en) transcript = Inr full_text
                \<and> subscript row ''transcript'' = Inr (JStr full_text)"
  using assms lookup_or_create_user_effects [of row en]
  unfolding save_call_def
  by (auto elim!: in_then_effE simp: pure_step_def run_query_def split: if_splits)

lemma handle_call_end_effects:
  assumes "verify_signature en request = (fx, Inr body_str)"
    and "json_loads en body_str = Some data"
    and "x \<in> set (fst (handle_call_end en request))"
  shows "x \<in> set fx \<or> (\<exists>caller_id. x \<in> set (fst (save_call en data caller_id)))"
proof (cases "extract_ids data")
  case (Inl e)
  with assms show ?thesis by (simp add: handle_call_end_def)
next
  case (Inr ids)
  obtain conversation_id caller_id where ids: "ids = (conversation_id, caller_id)"
    by (cases ids)
  obtain fx' r where sc: "save_call en data caller_id = (fx', r)"
    by (cases "save_call en data caller_id")
  have "x \<in> set fx \<or> x \<in> set fx'"
    using assms Inr ids sc
    by (auto simp: handle_call_end_def split: if_splits sum.splits)
  with sc show ?thesis by (metis fst_conv)
qed

text \<open>
  Claim C8. For every non-empty transcript list, the transcript text that is stored has one
  line \<open><Role>: <message>\<close> for each turn, the role capitalized, the lines joined by
  newlines, the entries with an empty message left out. The transcript of an agent saying
  \<open>Hi\<close> and a user saying \<open>Hello\<close> is stored as \<open>Agent: Hi\<close>, newline, \<open>User: Hello\<close>.
  Capitalizing is Python's, on every letter of Latin-1: the text built for a role
  \<open>0xE9\<close>\<open>VA\<close> is \<open>0xC9\<close>\<open>va\<close>, for a role \<open>0xDF\<close> it is \<open>Ss\<close>, and an entry
  with no role is a line of \<open>Unknown\<close>.
\<close>

theorem stored_transcript_text:
  assumes "verify_signature en request = (fx, Inr body_str)"
    and "json_loads en body_str = Some data"
    and "get_path data [(''data'', JObj []), (''transcript'', JArr [])] = Inr (JArr entries)"
    and "entries \<noteq> []"
    and "list_all turn entries"
    and "Execute (Insert ''conversations'' row) \<in> set (fst (handle_call_end en request))"
  shows "subscript row ''transcript'' = Inr (JStr (transcript_text entries))
         \<and> transcript_text
              [JObj [(''role'', JStr ''agent''), (''message'', JStr ''Hi'')],
               JObj [(''role'', JStr ''user''), (''message'', JStr ''Hello'')]]
             = ''Agent: Hi'' @ [CHR 0x0A] @ ''User: Hello''
         \<and> format_transcript (\<lambda>v. ''?'')
              (JArr [JObj [(''role'', JStr ([CHR 0xE9] @ ''VA'')), (''message'', JStr ''Hi'')],
                     JObj [(''role'', JStr ''user''), (''message'', JStr '''')],
                     JObj [(''role'', JStr [CHR 0xDF]), (''message'', JStr ''Ja'')],
                     JObj [(''message'', JStr ''Bye'')]])
             = Inr ([CHR 0xC9] @ ''va: Hi'' @ [CHR 0x0A] @ ''Ss: Ja'' @ [CHR 0x0A]
                    @ ''Unknown: Bye'')"
proof (intro conjI)
  have nofx: "Execute c \<notin> set fx" for c
    using verify_signature_no_db_calls [OF assms(1)]
    by (induction fx) (auto simp: db_calls_def split: effect.splits)
  from handle_call_end_effects [OF assms(1,2,6)] nofx obtain caller_id where
    "Execute (Insert ''conversations'' row) \<in> set (fst (save_call en data caller_id))"
    by blast
  from save_call_conversation_row [OF this assms(3)] obtain full_text where
    "format_transcript (repr_text en) (JArr entries) = Inr full_text"
    "subscript row ''transcript'' = Inr (JStr full_text)" by blast
  with format_transcript_turns [OF assms(5)]
  show "subscript row ''transcript'' = Inr (JStr (transcript_text entries))" by simp
next
  show "transcript_text
         [JObj [(''role'', JStr ''agent''), (''message'', JStr ''Hi'')],
          JObj [(''role'', JStr ''user''), (''message'', JStr ''Hello'')]]
        = ''Agent: Hi'' @ [CHR 0x0A] @ ''User: Hello''"
    by code_simp
next
  show "format_transcript (\<lambda>v. ''?'')
              (JArr [JObj [(''role'', JStr ([CHR 0xE9] @ ''VA'')), (''message'', JStr ''Hi'')],
                     JObj [(''role'', JStr ''user''), (''message'', JStr '''')],
                     JObj [(''role'', JStr [CHR 0xDF]), (''message'', JStr ''Ja'')],
                     JObj [(''message'', JStr ''Bye'')]])
             = Inr ([CHR 0xC9] @ ''va: Hi'' @ [CHR 0x0A] @ ''Ss: Ja'' @ [CHR 0x0A]
                    @ ''Unknown: Bye'')"
    by code_simp
qed

theorem stored_transcript_text_witness:
  "verify_signature (store_env payload_two_turns)
      \<lparr>signature_header = Some ''t=1,v0=0a'', body = ''{}''\<rparr>
     = ([HmacNew ''secret'' ''1.{}''], Inr ''{}'')
   \<and> json_loads (store_env payload_two_turns) ''{}'' = Some payload_two_turns
   \<and> get_path payload_two_turns [(''data'', JObj []), (''transcript'', JArr [])]
       = Inr (JArr [JObj [(''role'', JStr ''agent''), (''message'', JStr ''Hi'')],
                    JObj [(''role'', JStr ''user''), (''message'', JStr ''Hello'')]])
   \<and> list_all turn [JObj [(''role'', JStr ''agent''), (''message'', JStr ''Hi'')],
                      JObj [(''role'', JStr ''user''), (''message'', JStr ''Hello'')]]
   \<and> Execute (Insert ''conversations''
          (JObj [(''user_id'', JNum 7), (''phone_number'', JStr ''+15550100''),
                 (''transcript'', JStr (''Agent: Hi'' @ [CHR 0x0A] @ ''User: Hello'')),
                 (''call_duration_secs'', JNull), (''happiness_level'', JNull),
                 (''call_direction'', JNull)]))
       \<in> set (fst (handle_call_end (store_env payload_two_turns)
                      \<lparr>signature_header = Some ''t=1,v0=0a'', body = ''{}''\<rparr>))
   \<and> subscript
         (JObj [(''user_id'', JNum 7), (''phone_number'', JStr ''+15550100''),
                (''transcript'', JStr (''Agent: Hi'' @ [CHR 0x0A] @ ''User: Hello'')),
                (''call_duration_secs'', JNull), (''happiness_level'', JNull),
                (''call_direction'', JNull)]) ''transcript''
       = Inr (JStr (transcript_text
                [JObj [(''role'', JStr ''agent''), (''message'', JStr ''Hi'')],
                 JObj [(''role'', JStr ''user''), (''message'', JStr ''Hello'')]]))"
proof -
  let ?rq = "\<lparr>signature_header = Some ''t=1,v0=0a'', body = ''{}''\<rparr>"
  let ?turns = "[JObj [(''role'', JStr ''agent''), (''message'', JStr ''Hi'')],
                 JObj [(''role'', JStr ''user''), (''message'', JStr ''Hello'')]]"
  let ?row = "JObj [(''user_id'', JNum 7), (''phone_number'', JStr ''+15550100''),
                (''transcript'', JStr (''Agent: Hi'' @ [CHR 0x0A] @ ''User: Hello'')),
                (''call_duration_secs'', JNull), (''happiness_level'', JNull),
                (''call_direction'', JNull)]"
  have v: "verify_signature (store_env payload_two_turns) ?rq
      = ([HmacNew ''secret'' ''1.{}''], Inr ''{}'')"
    by (simp add: verify_signature_def parse_signature_header_def absent_def store_env_def
        example_env_def compare_digest_def is_ascii_def)
  have j: "json_loads (store_env payload_two_turns) ''{}'' = Some payload_two_turns"
    by (simp add: store_env_def)
  have t: "get_path payload_two_turns [(''data'', JObj []), (''transcript'', JArr [])]
      = Inr (JArr ?turns)"
    by (simp add: payload_two_turns_def then_do_def)
  have ne: "?turns \<noteq> []" by simp
  have n: "normalize_number ''+15550100'' = ''+15550100''" by code_simp
  have c: "py_capitalize ''agent'' = Some ''Agent''" "py_capitalize ''user'' = Some ''User''"
    by code_simp+
  have tu: "list_all turn ?turns" by (simp add: turn_def c)
  have e: "extract_ids payload_two_turns = Inr (JStr ''conv_1'', JStr ''+15550100'')"
    by (simp add: extract_ids_def then_do_def payload_two_turns_def)
  have sc: "save_call (store_env payload_two_turns) payload_two_turns (JStr ''+15550100'')
      = ([Execute (Select ''users'' ''id'' ''phone_number'' (JStr ''+15550100'')),
          Execute (Insert ''users'' (JObj [(''phone_number'', JStr ''+15550100''),
                                           (''user_name'', JStr ''Unknown User'')])),
          Execute (Insert ''conversations'' ?row)],
         Inr (status_message ''success'' ''Transcript and additional data saved''))"
    by (simp add: n c then_do_def payload_two_turns_def save_call_def then_eff_def
        pure_step_def run_query_def lookup_or_create_user_def format_transcript_def
        capitalize_value_def first_row_def normalize_value_def store_env_def example_env_def)
  have st: "Execute (Insert ''conversations'' ?row)
      \<in> set (fst (handle_call_end (store_env payload_two_turns) ?rq))"
    by (simp add: handle_call_end_def v j e sc)
  have r: "subscript ?row ''transcript'' = Inr (JStr (transcript_text ?turns))"
    using stored_transcript_text [OF v j t ne tu st] by (rule conjunct1)
  from v j t tu st r show ?thesis by blast
qed

section \<open>Properties of profile assembly: medications\<close>

lemma py_in_sublist: "py_in sub s = sublist sub s"
  by (induction s) (simp_all add: sublist_Cons_right)

lemma medication_times_tags:
  assumes "dict_get med ''time_taken'' (JArr []) = Inr time_taken"
  shows "medication_times repr time_taken = map py_lower (time_tags repr med)"
proof (cases med)
  case (JObj kvs)
  show ?thesis
  proof (cases "map_of kvs ''time_taken''")
    case None
    with JObj assms show ?thesis
      by (auto simp: medication_times_def time_tags_def)
  next
    case (Some v)
    with JObj assms have tt: "time_taken = v" by auto
    have "map (\<lambda>t. case t of JStr s \<Rightarrow> py_lower s | _ \<Rightarrow> py_lower (py_str repr t)) ts
        = map py_lower (map (py_str repr) ts)" for ts
      by (induction ts) (auto split: json.splits)
    then show ?thesis
      using JObj Some tt
      by (cases v) (simp_all add: medication_times_def time_tags_def)
  qed
qed (use assms in simp_all)

lemma list_ex_times:
  assumes "dict_get med ''time_taken'' (JArr []) = Inr time_taken"
    and "py_lower name = name"
  shows "list_ex (py_in name) (medication_times repr time_taken) = in_bucket repr name med"
  using assms(2)
  by (simp add: medication_times_tags [OF assms(1)] in_bucket_def contains_ignoring_case_def
      py_in_sublist list_ex_iff)

lemma medication_row_name:
  "medication_row med \<Longrightarrow> subscript med ''medication_name'' = Inr (JStr (row_name med))"
  by (auto simp: medication_row_def row_name_def split: json.splits option.splits)

lemma medication_row_time_taken:
  "medication_row med \<Longrightarrow> \<exists>time_taken. dict_get med ''time_taken'' (JArr []) = Inr time_taken"
  by (auto simp: medication_row_def split: json.splits)

lemma bucket_names_Cons:
  "bucket_names repr name (med # meds) =
     (if in_bucket repr name med then row_name med # bucket_names repr name meds
      else bucket_names repr name meds)"
  by (simp add: bucket_names_def)

lemma bucket_medications_rows:
  "list_all medication_row meds \<Longrightarrow>
   bucket_medications repr meds (a, b, c) =
     Inr (a @ map JStr (bucket_names repr ''morning'' meds),
          b @ map JStr (bucket_names repr ''afternoon'' meds),
          c @ map JStr (bucket_names repr ''evening'' meds))"
proof (induction meds arbitrary: a b c)
  case Nil
  then show ?case by (simp add: bucket_names_def)
next
  case (Cons med meds)
  then have row: "medication_row med" and rest: "list_all medication_row meds"
    by simp_all
  from medication_row_time_taken [OF row] obtain time_taken where
    tt: "dict_get med ''time_taken'' (JArr []) = Inr time_taken" ..
  have low: "py_lower ''morning'' = ''morning''" "py_lower ''afternoon'' = ''afternoon''"
    "py_lower ''evening'' = ''evening''"
    by code_simp+
  show ?case
    by (simp add: medication_row_name [OF row] tt then_do_def Let_def
        list_ex_times [OF tt] low Cons.IH [OF rest] bucket_names_Cons)
qed

lemma join_values_strings: "join_values sep (map JStr xs) = Inr (py_join sep xs)"
  by (induction sep xs rule: py_join.induct) simp_all

lemma bucket_text_names:
  "bucket_text (map JStr names) =
     Inr (JStr (if names = [] then ''none'' else py_join '', '' names))"
  by (simp add: bucket_text_def join_values_strings then_do_def)

lemma medication_fields_refine:
  assumes "list_all medication_row medications"
  shows "then_do (bucket_medications repr medications ([], [], []))
           (medications_entry medications)
         = Inr (reference_medications repr medications)"
  by (simp add: bucket_medications_rows [OF assms] then_do_def medications_entry_def
      build_dict_def bucket_text_names reference_medications_def bucket_field_def)

lemma then_eff_InrE:
  assumes "then_eff r f = (fx, Inr y)"
  obtains fx1 x fx2 where "r = (fx1, Inr x)" "f x = (fx2, Inr y)" "fx = fx1 @ fx2"
  using assms by (auto simp: then_eff_def split: prod.splits sum.splits)

lemma pure_step_InrE:
  assumes "pure_step r = (fx, Inr y)"
  obtains "r = Inr y" "fx = []"
  using assms by (auto simp: pure_step_def)

lemma run_query_InrE:
  assumes "run_query en c = (fx, Inr rows)"
  obtains "execute en c = Inr rows" "fx = [Execute c]"
  using assms by (auto simp: run_query_def)

lemma build_profile_medications:
  assumes "build_profile repr user_name loved_one medications cp ns appts = Inr profile"
  shows "\<exists>entry. then_do (bucket_medications repr medications ([], [], []))
                     (medications_entry medications) = Inr entry
                 \<and> subscript profile ''medications'' = Inr entry"
  using assms
  by (auto simp: build_profile_def build_dict_def then_do_def split: sum.splits)

lemma profile_body_assembled:
  assumes "profile_body en n = (fx, Inr profile)"
    and "subscript profile ''medications'' = Inr entry"
  shows "\<exists>loved_one_id medications.
           (\<forall>lid. Execute (Select ''medications'' ''*'' ''loved_one_id'' lid) \<in> set fx
                  \<longrightarrow> lid = loved_one_id)
           \<and> execute en (Select ''medications'' ''*'' ''loved_one_id'' loved_one_id)
               = Inr medications
           \<and> then_do (bucket_medications (repr_text en) medications ([], [], []))
                (medications_entry medications) = Inr entry"
  using assms unfolding profile_body_def
  by (auto elim!: then_eff_InrE pure_step_InrE run_query_InrE
      dest!: build_profile_medications split: if_splits)

text \<open>
  Claim C6. For every list of medication rows, the medication fields of the assembled
  profile are those of the reference definition: a medication is in the morning, afternoon
  or evening bucket exactly when one of its time-of-day tags contains the name of the bucket
  as a substring, letter case apart (so it may be in several buckets); the field of a bucket
  is its names joined with \<open>", "\<close>, or \<open>none\<close> for an empty bucket; and
  \<open>has_medications\<close> is true exactly when there is a medication row.
\<close>

theorem assembled_medication_fields:
  assumes "list_all medication_row medications"
    and "Execute (Select ''medications'' ''*'' ''loved_one_id'' lid)
           \<in> set (fst (get_loved_one_profile_query en phone_number))"
    and "execute en (Select ''medications'' ''*'' ''loved_one_id'' lid) = Inr medications"
    and "snd (get_loved_one_profile_query en phone_number) = Returned profile"
    and "subscript profile ''medications'' = Inr entry"
  shows "entry = reference_medications (repr_text en) medications"
proof -
  obtain fx r where pb: "profile_body en (normalize_number phone_number) = (fx, r)"
    by (cases "profile_body en (normalize_number phone_number)")
  show ?thesis
  proof (cases r)
    case (Inl e)
    with pb assms(4,5) show ?thesis
      by (auto simp: get_loved_one_profile_query_def)
  next
    case (Inr p)
    with pb assms(4) have p: "p = profile"
      by (simp add: get_loved_one_profile_query_def)
    from pb Inr have fx: "fst (get_loved_one_profile_query en phone_number) = fx"
      by (simp add: get_loved_one_profile_query_def)
    from pb Inr p have "profile_body en (normalize_number phone_number) = (fx, Inr profile)"
      by simp
    from profile_body_assembled [OF this assms(5)] obtain loved_one_id meds where
      only: "\<forall>l. Execute (Select ''medications'' ''*'' ''loved_one_id'' l) \<in> set fx
                 \<longrightarrow> l = loved_one_id"
      and rows: "execute en (Select ''medications'' ''*'' ''loved_one_id'' loved_one_id)
                 = Inr meds"
      and entry: "then_do (bucket_medications (repr_text en) meds ([], [], []))
                   (medications_entry meds) = Inr entry"
      by blast
    from only assms(2) fx have "lid = loved_one_id" by simp
    with rows assms(3) have "meds = medications" by simp
    with entry medication_fields_refine [OF assms(1), of "repr_text en"]
    show ?thesis by simp
  qed
qed

theorem assembled_medication_fields_witness:
  "list_all medication_row
     [JObj [(''medication_name'', JStr ''Aspirin''),
            (''time_taken'', JArr [JStr ''Morning'', JStr ''Evening''])],
      JObj [(''medication_name'', JStr ''Zinc''),
            (''time_taken'', JStr ''afternoon, EVENING'')]]
   \<and> Execute (Select ''medications'' ''*'' ''loved_one_id'' (JNum 2))
        \<in> set (fst (get_loved_one_profile_query profile_env '' 1 555 ''))
   \<and> execute profile_env (Select ''medications'' ''*'' ''loved_one_id'' (JNum 2))
       = Inr [JObj [(''medication_name'', JStr ''Aspirin''),
                    (''time_taken'', JArr [JStr ''Morning'', JStr ''Evening''])],
              JObj [(''medication_name'', JStr ''Zinc''),
                    (''time_taken'', JStr ''afternoon, EVENING'')]]
   \<and> snd (get_loved_one_profile_query profile_env '' 1 555 '') = Returned example_profile
   \<and> subscript example_profile ''medications''
       = Inr (reference_medications (repr_text profile_env)
           [JObj [(''medication_name'', JStr ''Aspirin''),
                  (''time_taken'', JArr [JStr ''Morning'', JStr ''Evening''])],
            JObj [(''medication_name'', JStr ''Zinc''),
                  (''time_taken'', JStr ''afternoon, EVENING'')]])"
proof -
  let ?meds = "[JObj [(''medication_name'', JStr ''Aspirin''),
                      (''time_taken'', JArr [JStr ''Morning'', JStr ''Evening''])],
                JObj [(''medication_name'', JStr ''Zinc''),
                      (''time_taken'', JStr ''afternoon, EVENING'')]]"
  let ?entry = "JObj [(''has_medications'', JBool True),
                      (''morning_medications'', JStr ''Aspirin''),
                      (''afternoon_medications'', JStr ''Zinc''),
                      (''evening_medications'', JStr ''Aspirin, Zinc'')]"
  have rows: "list_all medication_row ?meds"
    by (simp add: medication_row_def)
  have n: "normalize_number '' 1 555 '' = ''+1555''"
    by code_simp
  have bp: "build_profile (\<lambda>v. ''?'') (JStr ''Ana'')
      (JObj [(''id'', JNum 2), (''name'', JStr ''Bo''), (''nickname'', JStr ''B''),
             (''age_range'', JStr ''70-80''), (''gender'', JStr ''female''),
             (''relationship_to_user'', JStr ''mother'')])
      ?meds (JObj []) (JObj [])
      [JObj [(''appointment_title'', JStr ''Dentist''),
             (''appointment_date'', JStr ''2025-05-01''),
             (''appointment_time'', JStr ''10:00''), (''frequency'', JNull)]]
      = Inr example_profile"
    by code_simp
  have q: "get_loved_one_profile_query profile_env '' 1 555 '' =
      ([Execute (Select ''users'' ''id, user_name'' ''phone_number'' (JStr ''+1555'')),
        Execute (Select ''loved_ones'' ''*'' ''user_id'' (JNum 1)),
        Execute (Select ''medications'' ''*'' ''loved_one_id'' (JNum 2)),
        Execute (Select ''call_preferences'' ''*'' ''loved_one_id'' (JNum 2)),
        Execute (Select ''notification_settings'' ''*'' ''loved_one_id'' (JNum 2)),
        Execute (Select ''consolidated_appointments'' ''*'' ''loved_one_id'' (JNum 2))],
       Returned example_profile)"
    by (simp add: get_loved_one_profile_query_def n profile_body_def then_eff_def
        pure_step_def run_query_def profile_env_def example_env_def first_row_def
        first_or_empty_def then_do_def bp)
  have ex: "execute profile_env (Select ''medications'' ''*'' ''loved_one_id'' (JNum 2))
      = Inr ?meds"
    by (simp add: profile_env_def)
  have sub: "subscript example_profile ''medications'' = Inr ?entry"
    by (simp add: example_profile_def)
  have inq: "Execute (Select ''medications'' ''*'' ''loved_one_id'' (JNum 2))
      \<in> set (fst (get_loved_one_profile_query profile_env '' 1 555 ''))"
    by (simp add: q)
  have res: "snd (get_loved_one_profile_query profile_env '' 1 555 '') = Returned example_profile"
    by (simp add: q)
  have "?entry = reference_medications (repr_text profile_env) ?meds"
    using rows inq ex res sub by (rule assembled_medication_fields)
  with sub have "subscript example_profile ''medications''
      = Inr (reference_medications (repr_text profile_env) ?meds)"
    by simp
  with rows inq ex res show ?thesis by blast
qed

section \<open>Properties of the appointment variables\<close>

lemma appointment_details_records:
  "appointment_details repr (map JObj records) = Inr (map (appointment_line repr) records)"
  by (induction records)
     (simp_all add: then_do_def appointment_line_def record_field_def)

text \<open>
  Claim C7. For every list of appointment records, the summary
  \<open>upcoming_appointments\<close> holds at most the first three records, in the order they came,
  each as
  \<open><title> on <date> at <time>\<close>, joined with commas; the title, date and time of the first
  record are given separately as the next appointment; with no appointment,
  \<open>has_upcoming_appointment\<close> is \<open>false\<close> and the summary is \<open>none\<close>. No record after
  the third has a part in the variables: a profile that holds the first three records
  only is given the same ones. Of four appointments, the fourth is not in the summary.
\<close>

theorem appointment_variables_summary:
  assumes "dict_get profile ''appointments'' (JArr []) = Inr (JArr (map JObj records))"
  shows "appointment_variables repr profile = Inr (appointment_summary repr records)
         \<and> (dict_get shorter ''appointments'' (JArr []) = Inr (JArr (map JObj (take 3 records)))
              \<longrightarrow> appointment_variables repr shorter = appointment_variables repr profile)
         \<and> appointment_variables repr (JObj [(''appointments'', JArr [])]) =
             Inr [(''has_upcoming_appointment'', JStr ''false''),
                  (''upcoming_appointments'', JStr ''none'')]
         \<and> appointment_variables repr
              (JObj [(''appointments'', JArr (map JObj four_appointments))]) =
             Inr [(''has_upcoming_appointment'', JStr ''true''),
                  (''next_appointment_title'', JStr ''Dentist''),
                  (''next_appointment_date'', JStr ''2025-05-01''),
                  (''next_appointment_time'', JStr ''10:00''),
                  (''upcoming_appointments'',
                     JStr (''Dentist on 2025-05-01 at 10:00, ''
                           @ ''Eye exam on 2025-05-03 at 09:30, ''
                           @ ''Walk on None at 17:00''))]"
proof (intro conjI impI)
  have refine: "appointment_variables repr p = Inr (appointment_summary repr rs)"
    if a: "dict_get p ''appointments'' (JArr []) = Inr (JArr (map JObj rs))" for p rs
  proof (cases rs)
    case Nil
    with a show ?thesis
      by (simp add: appointment_variables_def then_do_def appointment_summary_def)
  next
    case (Cons nearest others)
    have d: "appointment_details repr (take 3 (map JObj rs))
        = Inr (map (appointment_line repr) (take 3 rs))"
      using appointment_details_records [of repr "take 3 rs"] by (simp add: take_map)
    have f: "first_three (JArr (map JObj rs)) = Inr (take 3 (map JObj rs))"
      by simp
    have n: "first_item (JArr (map JObj rs)) = Inr (JObj nearest)"
      using Cons by simp
    have t: "truthy (JArr (map JObj rs))"
      using Cons by simp
    show ?thesis
      unfolding appointment_variables_def a then_do_def
      by (simp only: t n f d py_join_separated sum.case if_True dict_get.simps)
         (simp add: appointment_summary_def record_field_def Cons)
  qed
  show first: "appointment_variables repr profile = Inr (appointment_summary repr records)"
    using assms by (rule refine)
  show "appointment_variables repr shorter = appointment_variables repr profile"
    if "dict_get shorter ''appointments'' (JArr []) = Inr (JArr (map JObj (take 3 records)))"
  proof -
    have "appointment_variables repr shorter = Inr (appointment_summary repr (take 3 records))"
      using that by (rule refine)
    moreover have "appointment_summary repr (take 3 records) = appointment_summary repr records"
      by (cases records) (simp_all add: appointment_summary_def)
    ultimately show ?thesis using first by simp
  qed
  show "appointment_variables repr (JObj [(''appointments'', JArr [])]) =
             Inr [(''has_upcoming_appointment'', JStr ''false''),
                  (''upcoming_appointments'', JStr ''none'')]"
    by (simp add: appointment_variables_def then_do_def)
  show "appointment_variables repr
              (JObj [(''appointments'', JArr (map JObj four_appointments))]) =
             Inr [(''has_upcoming_appointment'', JStr ''true''),
                  (''next_appointment_title'', JStr ''Dentist''),
                  (''next_appointment_date'', JStr ''2025-05-01''),
                  (''next_appointment_time'', JStr ''10:00''),
                  (''upcoming_appointments'',
                     JStr (''Dentist on 2025-05-01 at 10:00, ''
                           @ ''Eye exam on 2025-05-03 at 09:30, ''
                           @ ''Walk on None at 17:00''))]"
    by (simp add: appointment_variables_def then_do_def four_appointments_def)
qed

theorem appointment_variables_summary_witness:
  "dict_get (JObj [(''appointments'', JArr (map JObj four_appointments))])
        ''appointments'' (JArr [])
     = Inr (JArr (map JObj four_appointments))
   \<and> dict_get (JObj [(''appointments'', JArr (map JObj (take 3 four_appointments)))])
        ''appointments'' (JArr [])
     = Inr (JArr (map JObj (take 3 four_appointments)))
   \<and> appointment_variables (\<lambda>v. ''?'')
        (JObj [(''appointments'', JArr (map JObj four_appointments))])
     = Inr (appointment_summary (\<lambda>v. ''?'') four_appointments)
   \<and> appointment_variables (\<lambda>v. ''?'')
        (JObj [(''appointments'', JArr (map JObj (take 3 four_appointments)))])
     = appointment_variables (\<lambda>v. ''?'')
        (JObj [(''appointments'', JArr (map JObj four_appointments))])
   \<and> appointment_summary (\<lambda>v. ''?'') four_appointments
     = [(''has_upcoming_appointment'', JStr ''true''),
        (''next_appointment_title'', JStr ''Dentist''),
        (''next_appointment_date'', JStr ''2025-05-01''),
        (''next_appointment_time'', JStr ''10:00''),
        (''upcoming_appointments'',
           JStr (''Dentist on 2025-05-01 at 10:00, ''
                 @ ''Eye exam on 2025-05-03 at 09:30, ''
                 @ ''Walk on None at 17:00''))]"
proof -
  let ?four = "JObj [(''appointments'', JArr (map JObj four_appointments))]"
  let ?three = "JObj [(''appointments'', JArr (map JObj (take 3 four_appointments)))]"
  have a: "dict_get ?four ''appointments'' (JArr []) = Inr (JArr (map JObj four_appointments))"
    by simp
  have b: "dict_get ?three ''appointments'' (JArr [])
      = Inr (JArr (map JObj (take 3 four_appointments)))"
    by simp
  note r = appointment_variables_summary [OF a, of "\<lambda>v. ''?''" ?three]
  from r have r1: "appointment_variables (\<lambda>v. ''?'') ?four
      = Inr (appointment_summary (\<lambda>v. ''?'') four_appointments)"
    by (rule conjunct1)
  from r b have r2: "appointment_variables (\<lambda>v. ''?'') ?three
      = appointment_variables (\<lambda>v. ''?'') ?four"
    by blast
  from r have r3: "appointment_variables (\<lambda>v. ''?'') ?four
     = Inr [(''has_upcoming_appointment'', JStr ''true''),
        (''next_appointment_title'', JStr ''Dentist''),
        (''next_appointment_date'', JStr ''2025-05-01''),
        (''next_appointment_time'', JStr ''10:00''),
        (''upcoming_appointments'',
           JStr (''Dentist on 2025-05-01 at 10:00, ''
                 @ ''Eye exam on 2025-05-03 at 09:30, ''
                 @ ''Walk on None at 17:00''))]"
    by blast
  from r1 r3 have r4: "appointment_summary (\<lambda>v. ''?'') four_appointments
     = [(''has_upcoming_appointment'', JStr ''true''),
        (''next_appointment_title'', JStr ''Dentist''),
        (''next_appointment_date'', JStr ''2025-05-01''),
        (''next_appointment_time'', JStr ''10:00''),
        (''upcoming_appointments'',
           JStr (''Dentist on 2025-05-01 at 10:00, ''
                 @ ''Eye exam on 2025-05-03 at 09:30, ''
                 @ ''Walk on None at 17:00''))]"
    by simp
  from a b r1 r2 r4 show ?thesis by blast
qed

section \<open>Properties of the failure policy of profile assembly\<close>

text \<open>
  Claim C4, as stated: the object returned on an unexpected error contains only a
  caller-name fallback. With a datastore that cannot be reached, the first lookup of the
  profile endpoint raises, and the object the endpoint returns has two entries: the
  fallback name and, under \<open>error\<close>, the text of the exception.
\<close>

theorem fallback_object_carries_error_text:
  "snd (profile_body unreachable_env (normalize_number ''+1555''))
     = Inl (External ''connection refused'')
   \<and> snd (get_loved_one_profile_query unreachable_env ''+1555'')
       = Returned (JObj [(''caller_name'', JStr ''Valued Customer''),
                         (''error'', JStr ''error'')])
   \<and> snd (get_loved_one_profile_query unreachable_env ''+1555'')
       \<noteq> Returned (JObj [(''caller_name'', JStr ''Valued Customer'')])"
proof -
  have n: "normalize_number ''+1555'' = ''+1555''"
    by code_simp
  have p: "snd (profile_body unreachable_env (normalize_number ''+1555''))
      = Inl (External ''connection refused'')"
    by (simp add: n profile_body_def then_eff_def run_query_def unreachable_env_def)
  have t: "exn_text unreachable_env (External ''connection refused'') = ''error''"
    by (simp add: unreachable_env_def example_env_def)
  have q: "snd (get_loved_one_profile_query unreachable_env ''+1555'')
       = Returned (JObj [(''caller_name'', JStr ''Valued Customer''),
                         (''error'', JStr ''error'')])"
    using p by (auto simp: get_loved_one_profile_query_def t split: prod.splits sum.splits)
  from p q show ?thesis by simp
qed

text \<open>
  Claim C4, amended. For every input on which profile assembly raises an unexpected error,
  in a lookup or in the joining, the error does not leave the assembling endpoint, which
  returns an object and surfaces no failure. For the profile endpoint the object holds the
  caller-name fallback \<open>Valued Customer\<close> and, under \<open>error\<close>, the text of the
  exception; for conversation initiation its dynamic variables hold the caller-name
  fallback \<open>there\<close> and nothing else.
\<close>

theorem assembly_error_gives_fallback:
  "(snd (profile_body en (normalize_number phone_number)) = Inl e \<longrightarrow>
      snd (get_loved_one_profile_query en phone_number)
        = Returned (JObj [(''caller_name'', JStr ''Valued Customer''),
                          (''error'', JStr (exn_text en e))]))
   \<and> (snd (initiation_body en request_json) = Inl e' \<longrightarrow>
      snd (handle_conversation_initiation en request_json)
        = Returned (JObj [(''type'', JStr ''conversation_initiation_client_data''),
                          (''dynamic_variables'', JObj [(''caller_name'', JStr ''there'')])]))
   \<and> (\<forall>x. snd (get_loved_one_profile_query en phone_number) \<noteq> Unhandled x)
   \<and> (\<forall>x. snd (handle_conversation_initiation en request_json) \<noteq> Unhandled x)
   \<and> (\<forall>c d. snd (get_loved_one_profile_query en phone_number) \<noteq> HTTPException c d)
   \<and> (\<forall>c d. snd (handle_conversation_initiation en request_json) \<noteq> HTTPException c d)"
  by (auto simp: get_loved_one_profile_query_def handle_conversation_initiation_def
      initiation_data_def split: prod.splits sum.splits)

theorem assembly_error_gives_fallback_witness:
  "snd (profile_body unreachable_env (normalize_number ''+1555''))
     = Inl (External ''connection refused'')
   \<and> snd (get_loved_one_profile_query unreachable_env ''+1555'')
       = Returned (JObj [(''caller_name'', JStr ''Valued Customer''),
                         (''error'', JStr (exn_text unreachable_env
                                             (External ''connection refused'')))])
   \<and> snd (profile_body failing_env (normalize_number ''+1555'')) = Inl TypeError
   \<and> snd (get_loved_one_profile_query failing_env ''+1555'')
       = Returned (JObj [(''caller_name'', JStr ''Valued Customer''),
                         (''error'', JStr (exn_text failing_env TypeError))])
   \<and> snd (initiation_body example_env (Inr (JObj [(''caller_id'', JStr ''+1555'')])))
       = Inl (External ''unreachable'')
   \<and> snd (handle_conversation_initiation example_env
             (Inr (JObj [(''caller_id'', JStr ''+1555'')])))
       = Returned (JObj [(''type'', JStr ''conversation_initiation_client_data''),
                         (''dynamic_variables'', JObj [(''caller_name'', JStr ''there'')])])"
proof -
  have n: "normalize_number ''+1555'' = ''+1555''"
    by code_simp
  have p1: "snd (profile_body unreachable_env (normalize_number ''+1555''))
      = Inl (External ''connection refused'')"
    by (simp add: n profile_body_def then_eff_def run_query_def unreachable_env_def)
  have bp: "build_profile (\<lambda>v. ''?'') (JStr ''Ana'')
      (JObj [(''id'', JNum 2), (''name'', JStr ''Bo''), (''nickname'', JStr ''B''),
             (''age_range'', JStr ''70-80''), (''gender'', JStr ''female''),
             (''relationship_to_user'', JStr ''mother'')])
      [JObj [(''medication_name'', JNull), (''time_taken'', JArr [JStr ''morning''])]]
      (JObj []) (JObj [])
      [JObj [(''appointment_title'', JStr ''Dentist''),
             (''appointment_date'', JStr ''2025-05-01''),
             (''appointment_time'', JStr ''10:00''), (''frequency'', JNull)]]
      = Inl TypeError"
    by code_simp
  have p2: "snd (profile_body failing_env (normalize_number ''+1555'')) = Inl TypeError"
    by (simp add: n profile_body_def then_eff_def pure_step_def run_query_def failing_env_def
        profile_env_def example_env_def first_row_def first_or_empty_def then_do_def bp)
  have p3: "snd (initiation_body example_env (Inr (JObj [(''caller_id'', JStr ''+1555'')])))
      = Inl (External ''unreachable'')"
    by (simp add: initiation_body_def then_eff_def pure_step_def fetch_profile_def
        example_env_def)
  from assembly_error_gives_fallback
         [of unreachable_env "''+1555''" "External ''connection refused''"] p1
  have r1: "snd (get_loved_one_profile_query unreachable_env ''+1555'')
       = Returned (JObj [(''caller_name'', JStr ''Valued Customer''),
                         (''error'', JStr (exn_text unreachable_env
                                             (External ''connection refused'')))])"
    by blast
  from assembly_error_gives_fallback [of failing_env "''+1555''" TypeError] p2
  have r2: "snd (get_loved_one_profile_query failing_env ''+1555'')
       = Returned (JObj [(''caller_name'', JStr ''Valued Customer''),
                         (''error'', JStr (exn_text failing_env TypeError))])"
    by blast
  from assembly_error_gives_fallback
         [where en = example_env
            and request_json = "Inr (JObj [(''caller_id'', JStr ''+1555'')])"
            and e' = "External ''unreachable''"] p3
  have r3: "snd (handle_conversation_initiation example_env
             (Inr (JObj [(''caller_id'', JStr ''+1555'')])))
       = Returned (JObj [(''type'', JStr ''conversation_initiation_client_data''),
                         (''dynamic_variables'', JObj [(''caller_name'', JStr ''there'')])])"
    by blast
  from p1 r1 p2 r2 p3 r3 show ?thesis by blast
qed

section \<open>Properties of the media stream handler\<close>

lemma relay_no_teardown:
  "count_list (fst (relay se frames ending)) EndSession = 0
   \<and> count_list (fst (relay se frames ending)) WaitForSessionEnd = 0"
  by (induction frames) (auto split: option.splits prod.splits)

lemma session_body_no_teardown:
  "session_body se frames ending = (calls, bound, r) \<Longrightarrow>
   count_list calls EndSession = 0 \<and> count_list calls WaitForSessionEnd = 0"
  using relay_no_teardown [of se frames ending]
  by (auto simp: session_body_def split: option.splits prod.splits)

lemma session_body_bound:
  "new_conversation se = None \<Longrightarrow> session_body se frames ending = (calls, bound, r) \<Longrightarrow> bound"
  by (auto simp: session_body_def split: option.splits prod.splits)

text \<open>
  Claim C3, as stated: session end and the wait for its confirmation are each invoked
  exactly once on every exit path of the session handler, and a second teardown attempt is
  a no-op. It fails where \<open>end_session\<close> raises: the stream closes normally, the handler
  calls \<open>end_session\<close>, and the wait is not invoked at all.
\<close>

theorem wait_skipped_when_end_session_raises:
  "\<not> (count_list (handle_media_stream failing_end_session [] StreamClosed) EndSession = 1
       \<and> count_list (handle_media_stream failing_end_session [] StreamClosed)
             WaitForSessionEnd = 1)"
  by (simp add: handle_media_stream_def session_body_def teardown_def failing_end_session_def)

text \<open>
  Claim C3, amended. Once the conversation object exists, on every exit path of the session
  handler (the stream closes, the websocket disconnects, \<open>start_session\<close> or the relay of
  a frame raises) \<open>end_session\<close> is invoked exactly once, and
  \<open>wait_for_session_end\<close> at most once: exactly once when \<open>end_session\<close> returns.
  The handler has one teardown, its \<open>finally\<close> block, whose own exceptions are caught.
\<close>

theorem session_teardown_once:
  assumes "new_conversation se = None"
  shows "count_list (handle_media_stream se frames ending) EndSession = 1
         \<and> count_list (handle_media_stream se frames ending) WaitForSessionEnd \<le> 1
         \<and> (end_session se = None \<longrightarrow>
              count_list (handle_media_stream se frames ending) WaitForSessionEnd = 1)"
proof -
  obtain calls bound r where sb: "session_body se frames ending = (calls, bound, r)"
    by (cases "session_body se frames ending")
  from session_body_no_teardown [OF sb] have
    c: "count_list calls EndSession = 0" "count_list calls WaitForSessionEnd = 0"
    by simp_all
  from session_body_bound [OF assms sb] have b: bound .
  show ?thesis
    using c b
    by (cases "end_session se")
       (simp_all add: handle_media_stream_def sb teardown_def)
qed

theorem session_teardown_once_witness:
  "new_conversation faulty_relay = None \<and> end_session faulty_relay = None
   \<and> count_list (handle_media_stream faulty_relay [''start'', ''media''] StreamClosed)
        EndSession = 1
   \<and> count_list (handle_media_stream faulty_relay [''start'', ''media''] StreamClosed)
        WaitForSessionEnd = 1
   \<and> count_list (handle_media_stream faulty_relay [''start'']
                   (StreamRaises WebSocketDisconnect)) EndSession = 1
   \<and> count_list (handle_media_stream faulty_relay [''start'']
                   (StreamRaises WebSocketDisconnect)) WaitForSessionEnd = 1
   \<and> count_list (handle_media_stream faulty_relay [''start'', ''stop'', ''media''] StreamClosed)
        EndSession = 1
   \<and> count_list (handle_media_stream faulty_relay [''start'', ''stop'', ''media''] StreamClosed)
        WaitForSessionEnd = 1"
proof -
  have n: "new_conversation faulty_relay = None" and e: "end_session faulty_relay = None"
    by (simp_all add: faulty_relay_def)
  from session_teardown_once [OF n, of "[''start'', ''media'']" StreamClosed]
    session_teardown_once [OF n, of "[''start'']" "StreamRaises WebSocketDisconnect"]
    session_teardown_once [OF n, of "[''start'', ''stop'', ''media'']" StreamClosed]
    n e
  show ?thesis by blast
qed

end
